theory Spec2Isabelle
  imports Main "HOL-Library.Word" "HOL-Library.Char_ord" "HOL-Library.List_Lexorder"
begin

unbundle bit_operations_syntax

section \<open>JavaScript values and built-ins used by the commands\<close>

text \<open>
  The wash commands \<^verbatim>\<open>ls\<close>, \<^verbatim>\<open>import\<close>, \<^verbatim>\<open>mkdir\<close> and \<^verbatim>\<open>mv\<close> are
  modelled as functions on an explicit world: the state of the file system behind
  \<^verbatim>\<open>cx.fileSystemManager\<close> and the trace of the calls the command makes on its
  execute context, on the file system and on the document. Strings are byte strings,
  numbers are integers of any size (modes, sizes and epoch milliseconds are), and the
  order of \<^verbatim>\<open>Array.prototype.sort\<close> on strings is the lexicographic order of the
  characters.
\<close>

datatype jsval =
    Undefined
  | Null
  | Bool bool
  | Num int
  | Str string
  | Arr "jsval list"
  | Obj "(string \<times> jsval) list"

definition digit :: "nat \<Rightarrow> char" where
  "digit n = ''0123456789abcdef'' ! n"

fun show_nat :: "nat \<Rightarrow> string" where
  "show_nat n = (if n < 10 then [digit n] else show_nat (n div 10) @ [digit (n mod 10)])"

declare show_nat.simps [simp del]

text \<open>The decimal digits of an integer that is not negative, and of any integer.\<close>

function show_digits :: "int \<Rightarrow> string" where
  "show_digits i =
     (if i < 10 then [digit (nat i)] else show_digits (i div 10) @ [digit (nat (i mod 10))])"
  by pat_completeness auto

termination
  by (relation "measure nat") auto

declare show_digits.simps [simp del]

definition show_int :: "int \<Rightarrow> string" where
  "show_int i = (if i < 0 then CHR ''-'' # show_digits (- i) else show_digits i)"

text \<open>
  The bit operators \<^verbatim>\<open>^\<close> and \<^verbatim>\<open>&\<close> convert their operands with ToInt32: of an
  integer they see the low 32 bits only, while \<^verbatim>\<open>==\<close> compares the numbers.
\<close>

definition ToInt32 :: "int \<Rightarrow> 32 word" where
  "ToInt32 n = word_of_int n"

fun join :: "string \<Rightarrow> string list \<Rightarrow> string" where
  "join sep [] = []"
| "join sep [x] = x"
| "join sep (x # y # ys) = x @ sep @ join sep (y # ys)"

text \<open>\<^verbatim>\<open>JSON.stringify\<close> on a string: the quoted string with the JSON escapes.\<close>

definition quote_char :: "char \<Rightarrow> string" where
  "quote_char c =
     (if c = CHR 0x22 then [CHR 0x5C, CHR 0x22]
      else if c = CHR 0x5C then [CHR 0x5C, CHR 0x5C]
      else if c = CHR 0x08 then [CHR 0x5C, CHR ''b'']
      else if c = CHR 0x09 then [CHR 0x5C, CHR ''t'']
      else if c = CHR 0x0A then [CHR 0x5C, CHR ''n'']
      else if c = CHR 0x0C then [CHR 0x5C, CHR ''f'']
      else if c = CHR 0x0D then [CHR 0x5C, CHR ''r'']
      else if (of_char c :: nat) < 32
        then [CHR 0x5C, CHR ''u'', CHR ''0'', CHR ''0'',
              digit (of_char c div 16), digit (of_char c mod 16)]
      else [c])"

definition quote :: "string \<Rightarrow> string" where
  "quote s = [CHR 0x22] @ concat (map quote_char s) @ [CHR 0x22]"

text \<open>
  \<^verbatim>\<open>JSON.stringify(value)\<close> as it is used in a string concatenation: \<^verbatim>\<open>undefined\<close>
  concatenates as the text \<^verbatim>\<open>undefined\<close>; inside an array it is \<^verbatim>\<open>null\<close>, and a
  property holding it is left out of an object.
\<close>

fun JSON_stringify :: "jsval \<Rightarrow> string" where
  "JSON_stringify Undefined = ''undefined''"
| "JSON_stringify Null = ''null''"
| "JSON_stringify (Bool b) = (if b then ''true'' else ''false'')"
| "JSON_stringify (Num n) = show_int n"
| "JSON_stringify (Str s) = quote s"
| "JSON_stringify (Arr vs) =
     ''['' @ join '','' (map (\<lambda>v. if v = Undefined then ''null'' else JSON_stringify v) vs) @ '']''"
| "JSON_stringify (Obj kvs) =
     ''{'' @ join '','' (map (\<lambda>kv. quote (fst kv) @ '':'' @ JSON_stringify (snd kv))
                          (filter (\<lambda>kv. snd kv \<noteq> Undefined) kvs)) @ ''}''"

subsection \<open>Dates\<close>

text \<open>
  The \<^verbatim>\<open>Date\<close> accessors of ECMAScript on a time value in milliseconds since the
  epoch, already shifted to local time: days since the epoch, the civil date of a day
  number in the proleptic Gregorian calendar, and the day of the week (0 is Sunday;
  1 January 1970 was a Thursday).
\<close>

definition msPerDay :: int where
  "msPerDay = 86400000"

definition Day :: "int \<Rightarrow> int" where
  "Day t = t div msPerDay"

definition civil :: "int \<Rightarrow> int \<times> int \<times> int" where
  "civil days =
     (let z = days + 719468;
          era = z div 146097;
          doe = z - era * 146097;
          yoe = (doe - doe div 1460 + doe div 36524 - doe div 146096) div 365;
          doy = doe - (365 * yoe + yoe div 4 - yoe div 100);
          mp = (5 * doy + 2) div 153;
          d = doy - (153 * mp + 2) div 5 + 1;
          m = (if mp < 10 then mp + 3 else mp - 9);
          y = yoe + era * 400 + (if m \<le> 2 then 1 else 0)
      in (y, m, d))"

definition YearFromTime :: "int \<Rightarrow> int" where
  "YearFromTime t = fst (civil (Day t))"

definition MonthFromTime :: "int \<Rightarrow> int" where
  "MonthFromTime t = fst (snd (civil (Day t))) - 1"

definition DateFromTime :: "int \<Rightarrow> int" where
  "DateFromTime t = snd (snd (civil (Day t)))"

definition WeekDay :: "int \<Rightarrow> int" where
  "WeekDay t = (Day t + 4) mod 7"

section \<open>Errors, paths and the library the commands import\<close>

text \<open>
  The values a promise rejects with: the kinds of \<^verbatim>\<open>AxiomError\<close> the commands test
  for or construct, any other object, and \<^verbatim>\<open>undefined\<close> and \<^verbatim>\<open>null\<close>, which have
  no properties.
\<close>

datatype error =
    TypeMismatch
  | NotFound
  | Duplicate
  | InvalidPath
  | Missing string
  | Runtime string
  | Unknown "error list"
  | Other string
  | JsUndefined
  | JsNull

fun nullish :: "error \<Rightarrow> bool" where
  "nullish JsUndefined = True"
| "nullish JsNull = True"
| "nullish _ = False"

text \<open>
  Modelled from the spec: \<^verbatim>\<open>AxiomError\<close> is missing from the sources. The spec names
  the kinds of failure and has a command ask whether a failure is of a kind ("on
  TypeMismatch failure ...; on any other failure ..."), so \<^verbatim>\<open>AxiomError.K.test(value)\<close>
  holds of the failures of kind \<^verbatim>\<open>K\<close> and of no other value.
\<close>

fun TypeMismatch_test :: "error \<Rightarrow> bool" where
  "TypeMismatch_test TypeMismatch = True"
| "TypeMismatch_test _ = False"

fun Duplicate_test :: "error \<Rightarrow> bool" where
  "Duplicate_test Duplicate = True"
| "Duplicate_test _ = False"

fun NotFound_test :: "error \<Rightarrow> bool" where
  "NotFound_test NotFound = True"
| "NotFound_test _ = False"

text \<open>
  A \<^verbatim>\<open>Path\<close> of \<^verbatim>\<open>axiom/fs/path\<close>, by what the commands read of it: its spec, the
  spec it was made from, its base name and its parent path (\<^verbatim>\<open>null\<close> at a root).
\<close>

datatype path =
  Path (spec: string) (originalSpec: string) (getBaseName: string) (getParentPath: "path option")

text \<open>
  A \<^verbatim>\<open>StatResult\<close>: the mode bit mask, the modification time in epoch milliseconds
  when the entry has one, and its other own properties (size, signature, ...) in
  insertion order.
\<close>

record stat_result =
  mode :: int
  mtime :: "int option"
  props :: "(string \<times> jsval) list"

definition Object_keys :: "stat_result \<Rightarrow> string list" where
  "Object_keys stat =
     [''mode''] @ (case mtime stat of None \<Rightarrow> [] | Some t \<Rightarrow> [''mtime'']) @
     remdups (filter (\<lambda>k. k \<noteq> ''mode'' \<and> k \<noteq> ''mtime'') (map fst (props stat)))"

definition get_prop :: "stat_result \<Rightarrow> string \<Rightarrow> jsval" where
  "get_prop stat key = (case map_of (props stat) key of None \<Rightarrow> Undefined | Some v \<Rightarrow> v)"

text \<open>
  The modules the commands import are not among the sources verified here; what the
  commands use of them is a parameter of the model: the mode bits \<^verbatim>\<open>Path.Mode.X\<close> and \<^verbatim>\<open>Path.Mode.D\<close>, \<^verbatim>\<open>Path.modeIntToString\<close>,
  \<^verbatim>\<open>Path.abs\<close>, the \<^verbatim>\<open>toString\<close> of a rejection value that is an object, and of the
  host the offset of local time from UTC at a time value and
  \<^verbatim>\<open>Date.prototype.toLocaleTimeString\<close>.
\<close>

record env =
  Mode_X :: int
  Mode_D :: int
  modeIntToString :: "int \<Rightarrow> string"
  Path_abs :: "string \<Rightarrow> string \<Rightarrow> path"
  error_toString :: "error \<Rightarrow> string"
  LocalTZA :: "int \<Rightarrow> int"
  toLocaleTimeString :: "int \<Rightarrow> string"

text \<open>
  \<^verbatim>\<open>e.toString()\<close> on a rejection value: on \<^verbatim>\<open>undefined\<close> and \<^verbatim>\<open>null\<close> the call
  throws a TypeError (\<open>Inl\<close>, the value thrown).
\<close>

definition toString :: "env \<Rightarrow> error \<Rightarrow> error + string" where
  "toString E e = (if nullish e then Inl (Other ''TypeError'') else Inr (error_toString E e))"

text \<open>
  Modelled from the spec: \<^verbatim>\<open>zpad\<close> of \<^verbatim>\<open>wash/string_utils\<close> is missing from the
  sources; the date is rendered as YYYY-MM-DD, so \<^verbatim>\<open>zpad(n, 2)\<close> is the number
  padded with zeros on the left to the given length.
\<close>

definition zpad :: "int \<Rightarrow> nat \<Rightarrow> string" where
  "zpad number len = replicate (len - length (show_int number)) CHR ''0'' @ show_int number"

section \<open>ls: formatStat\<close>

text \<open>
  \<^verbatim>\<open>formatStat\<close> in the steps of the source: the keys it keeps, the value it
  renders for a key, the array of fields and their join. The key \<^verbatim>\<open>mtime\<close> is
  among the keys only when the entry has the property; without it the date would be
  an invalid one.
\<close>

definition formatStat_keys :: "env \<Rightarrow> stat_result \<Rightarrow> string list" where
  "formatStat_keys E stat =
     (let keys = sort (Object_keys stat)
      in if mode stat = Mode_X E then [''signature'']
         else if ToInt32 (mode stat) XOR ToInt32 (Mode_X E) \<noteq> 0
           then filter (\<lambda>n. n \<noteq> ''signature'') keys
         else keys)"

definition formatStat_mtime :: "env \<Rightarrow> int \<Rightarrow> string" where
  "formatStat_mtime E t =
     (let d = t + LocalTZA E t
      in show_int (YearFromTime d) @ ''-'' @
         zpad (MonthFromTime d + 1) 2 @ ''-'' @
         zpad (WeekDay d) 2 @ '' '' @
         toLocaleTimeString E t)"

definition formatStat_value :: "env \<Rightarrow> stat_result \<Rightarrow> string \<Rightarrow> jsval" where
  "formatStat_value E stat key =
     (if key = ''mtime'' then
        (case mtime stat of
           Some t \<Rightarrow> Str (formatStat_mtime E t)
         | None \<Rightarrow> Str ''NaN-NaN-NaN Invalid Date'')
      else if key = ''mode'' then Str (modeIntToString E (mode stat))
      else get_prop stat key)"

definition formatStat_field :: "env \<Rightarrow> stat_result \<Rightarrow> string \<Rightarrow> string" where
  "formatStat_field E stat key = key @ '': '' @ JSON_stringify (formatStat_value E stat key)"

definition formatStat_ary :: "env \<Rightarrow> stat_result \<Rightarrow> string list" where
  "formatStat_ary E stat = map (formatStat_field E stat) (formatStat_keys E stat)"

definition formatStat :: "env \<Rightarrow> stat_result \<Rightarrow> string" where
  "formatStat E stat = join '', '' (formatStat_ary E stat)"

section \<open>The execute context, the file system manager and the world\<close>

text \<open>
  The promise a handler returns either fulfils, and the next \<^verbatim>\<open>then\<close> callback of the
  chain runs, or rejects, and it does not.
\<close>

datatype completion = Fulfilled | Rejected

text \<open>
  The file system manager behind \<^verbatim>\<open>cx.fileSystemManager\<close>: each operation answers
  from the current state of the file system and leaves a new state. A promise that
  rejects is the \<open>Inl\<close> (for \<^verbatim>\<open>mkdir\<close>, \<^verbatim>\<open>move\<close> and \<^verbatim>\<open>writeFile\<close> the \<open>Some\<close>)
  of the rejection value. A \<^verbatim>\<open>list\<close> result maps entry names to their stat results.
\<close>

type_synonym list_result = "(string \<times> stat_result) list"

record 'fs fsm =
  fs_list :: "'fs \<Rightarrow> path \<Rightarrow> (error + list_result) \<times> 'fs"
  fs_stat :: "'fs \<Rightarrow> path \<Rightarrow> (error + stat_result) \<times> 'fs"
  fs_mkdir :: "'fs \<Rightarrow> path \<Rightarrow> error option \<times> 'fs"
  fs_move :: "'fs \<Rightarrow> path \<Rightarrow> path \<Rightarrow> error option \<times> 'fs"
  fs_writeFile :: "'fs \<Rightarrow> path \<Rightarrow> string \<Rightarrow> error option \<times> 'fs"

text \<open>
  The execute context \<^verbatim>\<open>cx\<close>: the parsed arguments (\<open>arg_positional\<close> is the
  argument \<^verbatim>\<open>_\<close>, \<open>None\<close> when it was not given and \<^verbatim>\<open>getArg\<close> returns its
  default), the working directory and the file system manager. The calls of
  \<^verbatim>\<open>ready\<close>, \<^verbatim>\<open>stdout.write\<close>, \<^verbatim>\<open>closeOk\<close> and \<^verbatim>\<open>closeError\<close> are recorded in the
  trace and return normally.
\<close>

record 'fs execute_context =
  arg_help :: bool
  arg_file :: bool
  arg_positional :: "string list option"
  getPwd :: string
  fileSystemManager :: "'fs fsm"

datatype element = FileInput | DummyFocusInput | OriginalFocusElement

datatype event =
    Ready
  | StdoutWrite string
  | CloseOk
  | CloseError error
  | FsList path
  | FsStat path
  | FsMkdir path
  | FsMove path path
  | FsWriteFile path string
  | AppendChild element
  | RemoveChild element
  | ElementFocus element
  | ElementClick element

record 'fs world =
  fsys :: 'fs
  trace :: "event list"

definition start :: "'fs \<Rightarrow> 'fs world" where
  "start fs = \<lparr>fsys = fs, trace = []\<rparr>"

definition emit :: "event \<Rightarrow> 'fs world \<Rightarrow> 'fs world" where
  "emit ev w = w\<lparr>trace := trace w @ [ev]\<rparr>"

definition closeOk :: "'fs world \<Rightarrow> 'fs world" where
  "closeOk w = emit CloseOk w"

text \<open>
  Modelled from the spec: the class of \<^verbatim>\<open>cx\<close>, and with it \<^verbatim>\<open>closeError\<close>, is missing
  from the sources. The spec has the invocation context supply \<^verbatim>\<open>closeError(err)\<close>, has
  every command signal exactly one terminal outcome, and has \<^verbatim>\<open>ls\<close> "abort the whole
  command immediately with that error (no continuation to remaining targets)". \<^verbatim>\<open>ls\<close>
  returns the value of \<^verbatim>\<open>cx.closeError(value)\<close> from its handlers to the promise chain
  that takes the next target, so that value is a promise that rejects: a chain that is
  given it goes no further. The other commands discard the value.
\<close>

definition closeError :: "'fs execute_context \<Rightarrow> 'fs world \<Rightarrow> error \<Rightarrow> completion \<times> 'fs world" where
  "closeError cx w v = (Rejected, emit (CloseError v) w)"

definition stdout_write :: "string \<Rightarrow> 'fs world \<Rightarrow> 'fs world" where
  "stdout_write s w = emit (StdoutWrite s) w"

definition getArg_list :: "'fs execute_context \<Rightarrow> string list \<Rightarrow> string list" where
  "getArg_list cx dflt = (case arg_positional cx of None \<Rightarrow> dflt | Some l \<Rightarrow> l)"

definition call_list :: "'fs execute_context \<Rightarrow> 'fs world \<Rightarrow> path \<Rightarrow> (error + list_result) \<times> 'fs world" where
  "call_list cx w p =
     (let (r, fs') = fs_list (fileSystemManager cx) (fsys w) p
      in (r, emit (FsList p) (w\<lparr>fsys := fs'\<rparr>)))"

definition call_stat :: "'fs execute_context \<Rightarrow> 'fs world \<Rightarrow> path \<Rightarrow> (error + stat_result) \<times> 'fs world" where
  "call_stat cx w p =
     (let (r, fs') = fs_stat (fileSystemManager cx) (fsys w) p
      in (r, emit (FsStat p) (w\<lparr>fsys := fs'\<rparr>)))"

definition call_mkdir :: "'fs execute_context \<Rightarrow> 'fs world \<Rightarrow> path \<Rightarrow> error option \<times> 'fs world" where
  "call_mkdir cx w p =
     (let (r, fs') = fs_mkdir (fileSystemManager cx) (fsys w) p
      in (r, emit (FsMkdir p) (w\<lparr>fsys := fs'\<rparr>)))"

definition call_move :: "'fs execute_context \<Rightarrow> 'fs world \<Rightarrow> path \<Rightarrow> path \<Rightarrow> error option \<times> 'fs world" where
  "call_move cx w p q =
     (let (r, fs') = fs_move (fileSystemManager cx) (fsys w) p q
      in (r, emit (FsMove p q) (w\<lparr>fsys := fs'\<rparr>)))"

definition call_writeFile :: "'fs execute_context \<Rightarrow> 'fs world \<Rightarrow> path \<Rightarrow> string \<Rightarrow> error option \<times> 'fs world" where
  "call_writeFile cx w p content =
     (let (r, fs') = fs_writeFile (fileSystemManager cx) (fsys w) p content
      in (r, emit (FsWriteFile p content) (w\<lparr>fsys := fs'\<rparr>)))"

definition newline :: string where
  "newline = [CHR 0x0A]"

definition crlf :: string where
  "crlf = [CHR 0x0D, CHR 0x0A]"

section \<open>ls\<close>

definition ls_usage :: string where
  "ls_usage =
     join crlf [''usage: ls [<path>]'',
       ''List a file or the contents of a directory.'',
       [],
       ''If <path> is not provided it defaults to the current directory.''] @ crlf"

text \<open>The text the handler of a successful \<^verbatim>\<open>list\<close> writes: the header, then the entries.\<close>

definition listing_count :: "nat \<Rightarrow> string" where
  "listing_count n =
     (if n = 0 then ''empty.''
      else if n = 1 then ''1 entry:''
      else show_nat n @ '' entries:'')"

definition listing_longest :: "string list \<Rightarrow> nat" where
  "listing_longest names =
     fold (\<lambda>name longest. if length name > longest then length name else longest)
       names (length (hd names))"

definition listing_entry :: "env \<Rightarrow> nat \<Rightarrow> string \<Rightarrow> stat_result \<Rightarrow> string" where
  "listing_entry E longest name stat =
     name @ (if ToInt32 (mode stat) AND ToInt32 (Mode_D E) \<noteq> 0 then ''/'' else '' '') @
     replicate (longest - length name) CHR '' '' @
     ''   '' @ formatStat E stat @ newline"

definition listing :: "env \<Rightarrow> path \<Rightarrow> list_result \<Rightarrow> string" where
  "listing E p listResult =
     (let names = sort (remdups (map fst listResult));
          rv = ''Listing of '' @ quote (spec p) @ '', '' @ listing_count (length names) @ newline
      in if length names > 0
         then rv @ concat (map (\<lambda>name. listing_entry E (listing_longest names) name
                                         (the (map_of listResult name))) names)
         else rv)"

definition listPathSpec ::
  "env \<Rightarrow> 'fs execute_context \<Rightarrow> 'fs world \<Rightarrow> string \<Rightarrow> completion \<times> 'fs world" where
  "listPathSpec E cx w pathSpec =
     (let pwd = getPwd cx;
          p = Path_abs E pwd pathSpec;
          (r, w1) = call_list cx w p
      in case r of
           Inr listResult \<Rightarrow> (Fulfilled, stdout_write (listing E p listResult) w1)
         | Inl v \<Rightarrow>
             if TypeMismatch_test v then
               (let (r2, w2) = call_stat cx w1 p
                in case r2 of
                     Inr stat \<Rightarrow>
                       (Fulfilled,
                        stdout_write (getBaseName p @ ''  '' @ formatStat E stat @ newline) w2)
                   | Inl v2 \<Rightarrow> closeError cx w2 v2)
             else closeError cx w1 v)"

fun listNext :: "env \<Rightarrow> 'fs execute_context \<Rightarrow> 'fs world \<Rightarrow> string list \<Rightarrow> 'fs world" where
  "listNext E cx w [] = closeOk w"
| "listNext E cx w (pathSpec # pathList) =
     (case listPathSpec E cx w pathSpec of
        (Fulfilled, w') \<Rightarrow> listNext E cx w' pathList
      | (Rejected, w') \<Rightarrow> w')"

definition ls_main :: "env \<Rightarrow> 'fs execute_context \<Rightarrow> 'fs world \<Rightarrow> 'fs world" where
  "ls_main E cx w0 =
     (let w = emit Ready w0
      in if arg_help cx then closeOk (stdout_write ls_usage w)
         else listNext E cx w (getArg_list cx [getPwd cx]))"

section \<open>mkdir\<close>

definition mkdir_usage :: string where
  "mkdir_usage =
     join crlf [''usage: mkdir <path> ...'',
       ''Create one or more new directories.'',
       [],
       ''All parent directories must already exist.''] @ crlf"

text \<open>
  \<^verbatim>\<open>mkdirNext\<close> works on the variables \<^verbatim>\<open>errors\<close> and \<^verbatim>\<open>list\<close> of \<^verbatim>\<open>main\<close>, which are
  part of its state here. The result is what the promise it returns does: it fulfils
  (\<open>None\<close>) or rejects (\<open>Some\<close>, the rejection value).

  \<open>mkdir_catch\<close> is the handler given to \<^verbatim>\<open>catch\<close>, up to its \<^verbatim>\<open>return mkdirNext()\<close>:
  it sets \<^verbatim>\<open>errors\<close> and writes the line, unless \<^verbatim>\<open>e.toString()\<close> throws, which
  rejects the promise of the handler. The handler follows the \<^verbatim>\<open>then\<close> of the chain,
  so it also takes a rejection of the \<^verbatim>\<open>mkdirNext()\<close> returned there.
\<close>

definition mkdir_catch ::
  "env \<Rightarrow> path \<Rightarrow> error \<Rightarrow> bool \<times> string list \<times> 'fs world \<Rightarrow>
     error option \<times> bool \<times> string list \<times> 'fs world" where
  "mkdir_catch E p e st =
     (case toString E e of
        Inl thrown \<Rightarrow> (Some thrown, True, fst (snd st), snd (snd st))
      | Inr str \<Rightarrow>
          (None, True, fst (snd st),
           stdout_write (''mkdir: '' @ originalSpec p @ '': '' @ str @ newline) (snd (snd st))))"

function mkdirNext ::
  "env \<Rightarrow> 'fs execute_context \<Rightarrow> bool \<times> string list \<times> 'fs world \<Rightarrow>
     error option \<times> bool \<times> string list \<times> 'fs world" where
  "mkdirNext E cx (errors, [], w) = (None, errors, [], w)"
| "mkdirNext E cx (errors, pathSpec # list, w) =
     (let p = Path_abs E (getPwd cx) pathSpec;
          (r, w1) = call_mkdir cx w p
      in case r of
           None \<Rightarrow>
             (case mkdirNext E cx (errors, list, w1) of
                (None, st) \<Rightarrow> (None, st)
              | (Some e, st) \<Rightarrow>
                  (case mkdir_catch E p e st of
                     (Some thrown, st') \<Rightarrow> (Some thrown, st')
                   | (None, st') \<Rightarrow> mkdirNext E cx st'))
         | Some e \<Rightarrow>
             (case mkdir_catch E p e (errors, list, w1) of
                (Some thrown, st') \<Rightarrow> (Some thrown, st')
              | (None, st') \<Rightarrow> mkdirNext E cx st'))"
  by pat_completeness auto

termination
proof -
  have keep: "fst (snd (snd (mkdir_catch E p e st))) = fst (snd st)"
    for E p e and st :: "bool \<times> string list \<times> 'fs world"
    by (simp add: mkdir_catch_def split: sum.splits)
  have le: "length (fst (snd (snd (mkdirNext E cx st)))) \<le> length (fst (snd st))"
    if "mkdirNext_dom (E, cx, st)"
    for E and cx :: "'fs execute_context" and st
    using that
  proof (induct rule: mkdirNext.pinduct)
    case (1 E cx errors w)
    then show ?case
      by (simp add: mkdirNext.psimps)
  next
    case (2 E cx errors pathSpec list w)
    then show ?case
      by (auto simp: mkdirNext.psimps Let_def mkdir_catch_def le_SucI
            split: prod.splits option.splits sum.splits)
        (meson le_SucI order_trans)
  qed
  show ?thesis
  proof (relation "measure (\<lambda>(E, cx, errors, list, w). length list)")
    show "wf (measure (\<lambda>(E, cx, errors, list, w). length list))"
      by simp
  next
    fix E :: env and cx :: "'fs execute_context" and errors pathSpec list and w :: "'fs world"
      and x xa y
    show "((E, cx, errors, list, y), (E, cx, errors, pathSpec # list, w))
            \<in> measure (\<lambda>(E, cx, errors, list, w). length list)"
      by simp
  next
    fix E :: env and cx :: "'fs execute_context" and errors pathSpec list and w :: "'fs world"
      and x xa xb y xaa ya x2 xab yb
    assume "(xaa, ya) = mkdirNext E cx (errors, list, y)"
      and "(xab, yb) = mkdir_catch E x x2 ya"
      and "mkdirNext_dom (E, cx, errors, list, y)"
    then have "length (fst (snd yb)) \<le> length list"
      using le [of E cx "(errors, list, y)"] keep [of E x x2 ya]
      by (metis fst_conv snd_conv)
    then show "((E, cx, yb), E, cx, errors, pathSpec # list, w)
            \<in> measure (\<lambda>(E, cx, errors, list, w). length list)"
      by (cases yb) auto
  next
    fix E :: env and cx :: "'fs execute_context" and errors pathSpec list and w :: "'fs world"
      and x xa xb y x2 xaa and ya :: "bool \<times> string list \<times> 'fs world"
    assume "(xaa, ya) = mkdir_catch E x x2 (errors, list, y)"
    then have "fst (snd ya) = list"
      using keep [of E x x2 "(errors, list, y)"]
      by (metis fst_conv snd_conv)
    then show "((E, cx, ya), E, cx, errors, pathSpec # list, w)
            \<in> measure (\<lambda>(E, cx, errors, list, w). length list)"
      by (cases ya) auto
  qed
qed

text \<open>
  \<^verbatim>\<open>main\<close> of \<^verbatim>\<open>mkdir\<close>: the \<^verbatim>\<open>then\<close> on \<^verbatim>\<open>mkdirNext()\<close> has no handler for a
  rejection; when the promise rejects, the callback that closes the context does not
  run.
\<close>

definition mkdir_main :: "env \<Rightarrow> 'fs execute_context \<Rightarrow> 'fs world \<Rightarrow> 'fs world" where
  "mkdir_main E cx w0 =
     (let w = emit Ready w0;
          list = getArg_list cx []
      in if length list = 0 \<or> arg_help cx then closeOk (stdout_write mkdir_usage w)
         else
           (case mkdirNext E cx (False, list, w) of
              (None, errors, list', w') \<Rightarrow>
                if errors
                then snd (closeError cx w' (Runtime ''Some directories could not be created''))
                else closeOk w'
            | (Some e, errors, list', w') \<Rightarrow> w'))"

section \<open>mv\<close>

definition mv_usage :: string where
  "mv_usage =
     join crlf [''usage: mv <source> <destination>'',
       ''Move a file to a new location.'',
       [],
       ''If both locations are on the same file system this will perform an'',
       ''atomic move.  If not, it'' @ [CHR 0x27] @ ''ll perform a copy and delete (see `cp -h` '',
       ''for the details on how copying works).''] @ crlf"

definition mv_main :: "env \<Rightarrow> 'fs execute_context \<Rightarrow> 'fs world \<Rightarrow> 'fs world" where
  "mv_main E cx w0 =
     (let w = emit Ready w0;
          list = getArg_list cx []
      in if length list \<noteq> 2 \<or> arg_help cx then closeOk (stdout_write mv_usage w)
         else
           (let fromPathSpec = list ! 0;
                toPathSpec = list ! 1;
                pwd = getPwd cx;
                fromPath = Path_abs E pwd fromPathSpec;
                toPath = Path_abs E pwd toPathSpec;
                (r, w') = call_move cx w fromPath toPath
            in case r of
                 None \<Rightarrow> closeOk w'
               | Some err \<Rightarrow> snd (closeError cx w' err)))"

section \<open>import\<close>

definition import_usage :: string where
  "import_usage =
     join crlf [''usage: import [<target-directory>] [-f|--file]'',
       ''Import a directory from the local file system.'',
       [],
       ''If <target-directory> is provided, the file(s) will be imported there.'',
       ''If not, they will be imported into the current directory.'',
       [],
       ''Imports a directory by default (if supported by browser).  If -f is'',
       ''provided, only a single file is imported.''] @ crlf"

text \<open>
  A \<^verbatim>\<open>File\<close> of the chooser's \<^verbatim>\<open>FileList\<close>, with what its \<^verbatim>\<open>FileReader\<close> does:
  \<open>load_result\<close> is the content the \<^verbatim>\<open>load\<close> event delivers, \<open>None\<close> when no
  \<^verbatim>\<open>load\<close> event comes (the read fails; the command sets no other handler).
\<close>

record js_file =
  file_name :: string
  webkitRelativePath :: "string option"
  load_result :: "string option"

text \<open>
  The \<^verbatim>\<open>ImportCommand\<close> object after \<^verbatim>\<open>import\<close> has run, together with what its
  handlers act on: the children of \<^verbatim>\<open>document.body\<close> the command added, the number of
  \<^verbatim>\<open>setTimeout\<close> callbacks still to fire, and the world.
\<close>

record 'fs import_command =
  destination :: path
  singleFile :: bool
  filesChosen :: bool
  body :: "element list"
  timers :: nat
  cmd_world :: "'fs world"

definition cmd_emit :: "event \<Rightarrow> 'fs import_command \<Rightarrow> 'fs import_command" where
  "cmd_emit ev c = c\<lparr>cmd_world := emit ev (cmd_world c)\<rparr>"

definition appendChild :: "element \<Rightarrow> 'fs import_command \<Rightarrow> 'fs import_command" where
  "appendChild el c = cmd_emit (AppendChild el) (c\<lparr>body := body c @ [el]\<rparr>)"

text \<open>
  \<^verbatim>\<open>document.body.removeChild(el)\<close> throws when \<^verbatim>\<open>el\<close> is not a child of the body:
  \<open>Inl\<close> is the state at the throw, \<open>Inr\<close> the state after a normal return.
\<close>

definition removeChild ::
  "element \<Rightarrow> 'fs import_command \<Rightarrow> 'fs import_command + 'fs import_command" where
  "removeChild el c =
     (if el \<in> set (body c)
      then Inr (cmd_emit (RemoveChild el) (c\<lparr>body := remove1 el (body c)\<rparr>))
      else Inl c)"

definition ImportCommand_import :: "'fs world \<Rightarrow> path \<Rightarrow> bool \<Rightarrow> 'fs import_command" where
  "ImportCommand_import w dest forceSingleFile =
     (let c = \<lparr>destination = dest, singleFile = forceSingleFile, filesChosen = False,
               body = [], timers = 0, cmd_world = w\<rparr>;
          c = appendChild DummyFocusInput c;
          c = cmd_emit (ElementFocus DummyFocusInput) c;
          c = appendChild FileInput c;
          c = cmd_emit (ElementClick FileInput) c
      in c)"

text \<open>\<^verbatim>\<open>mkdirParent_\<close>: the promise fulfils (\<open>None\<close>) or rejects (\<open>Some\<close>).\<close>

fun mkdirParent :: "'fs execute_context \<Rightarrow> 'fs world \<Rightarrow> path \<Rightarrow> error option \<times> 'fs world" where
  "mkdirParent cx w (Path s os b None) = (None, w)"
| "mkdirParent cx w (Path s os b (Some parentPath)) =
     (case mkdirParent cx w parentPath of
        (Some e, w1) \<Rightarrow> (Some e, w1)
      | (None, w1) \<Rightarrow>
          (let (r, w2) = call_mkdir cx w1 (Path s os b (Some parentPath))
           in case r of
                None \<Rightarrow> (None, w2)
              | Some e \<Rightarrow> if Duplicate_test e then (None, w2) else (Some e, w2)))"

text \<open>\<^verbatim>\<open>destroy_\<close>\<close>

definition destroy :: "'fs import_command \<Rightarrow> 'fs import_command + 'fs import_command" where
  "destroy c =
     (case removeChild FileInput c of
        Inl c' \<Rightarrow> Inl c'
      | Inr c1 \<Rightarrow>
          (case removeChild DummyFocusInput c1 of
             Inl c' \<Rightarrow> Inl c'
           | Inr c2 \<Rightarrow> Inr (cmd_emit (ElementFocus OriginalFocusElement) c2)))"

text \<open>
  \<^verbatim>\<open>handleFileCancel_\<close> sets a timer; \<open>handleFileCancel_timeout\<close> is the callback it
  gives to \<^verbatim>\<open>setTimeout\<close>. A throw in \<^verbatim>\<open>destroy_\<close> ends the callback.
\<close>

definition handleFileCancel :: "'fs import_command \<Rightarrow> 'fs import_command" where
  "handleFileCancel c = c\<lparr>timers := timers c + 1\<rparr>"

definition handleFileCancel_timeout ::
  "'fs execute_context \<Rightarrow> 'fs import_command \<Rightarrow> 'fs import_command" where
  "handleFileCancel_timeout cx c =
     (if filesChosen c then c
      else case destroy c of
             Inl c' \<Rightarrow> c'
           | Inr c' \<Rightarrow>
               c'\<lparr>cmd_world := snd (closeError cx (cmd_world c') (Missing ''file selection''))\<rparr>)"

text \<open>
  \<^verbatim>\<open>onFileLoad\<close>: the value the file's completer is resolved with, \<open>Some None\<close> for
  \<^verbatim>\<open>null\<close> and \<open>Some (Some e)\<close> for an error. A path without a parent hands \<^verbatim>\<open>null\<close>
  to \<^verbatim>\<open>stat\<close>, outside the contract of the file system manager: the call is taken to
  throw in the load handler, and the completer is never resolved (\<open>None\<close>).
\<close>

definition onFileLoad ::
  "'fs execute_context \<Rightarrow> 'fs world \<Rightarrow> path \<Rightarrow> string \<Rightarrow> error option option \<times> 'fs world" where
  "onFileLoad cx w p fileContent =
     (case getParentPath p of
        None \<Rightarrow> (None, w)
      | Some parentDirectory \<Rightarrow>
          (let (r, w1) = call_stat cx w parentDirectory;
               (r1, w2) = (case r of
                             Inr result \<Rightarrow> (None, w1)
                           | Inl e \<Rightarrow> if NotFound_test e then mkdirParent cx w1 parentDirectory
                                      else (Some e, w1))
           in case r1 of
                Some e \<Rightarrow> (Some (Some e), w2)
              | None \<Rightarrow>
                  (let (r3, w3) = call_writeFile cx w2 p fileContent
                   in (Some r3, w3))))"

definition file_path :: "env \<Rightarrow> 'fs import_command \<Rightarrow> js_file \<Rightarrow> path" where
  "file_path E c f =
     (let relativePath =
            (case webkitRelativePath f of
               None \<Rightarrow> file_name f
             | Some rp \<Rightarrow> if singleFile c then file_name f else rp)
      in Path_abs E (spec (destination c)) relativePath)"

text \<open>
  The loop of \<^verbatim>\<open>handleFileSelect_\<close> with the reads it starts: the chain of each file
  runs when its reader has loaded, here in the order of the files. The result is the
  list of the values the completers are resolved with, \<open>None\<close> for a completer that
  stays pending.
\<close>

fun copyFiles ::
  "env \<Rightarrow> 'fs execute_context \<Rightarrow> 'fs import_command \<Rightarrow> 'fs world \<Rightarrow> js_file list \<Rightarrow>
     error option option list \<times> 'fs world" where
  "copyFiles E cx c w [] = ([], w)"
| "copyFiles E cx c w (f # files) =
     (let (v, w1) = (case load_result f of
                       None \<Rightarrow> (None, w)
                     | Some fileContent \<Rightarrow> onFileLoad cx w (file_path E c f) fileContent);
          (vs, w2) = copyFiles E cx c w1 files
      in (v # vs, w2))"

text \<open>
  \<^verbatim>\<open>handleFileSelect_\<close>: \<^verbatim>\<open>Promise.all\<close> settles once every completer is resolved;
  its callback runs \<^verbatim>\<open>destroy_\<close> (a throw there ends it) and closes the context.
\<close>

definition handleFileSelect ::
  "env \<Rightarrow> 'fs execute_context \<Rightarrow> 'fs import_command \<Rightarrow> js_file list \<Rightarrow> 'fs import_command" where
  "handleFileSelect E cx c0 files =
     (let c = c0\<lparr>filesChosen := True\<rparr>;
          (vals, w) = copyFiles E cx c (cmd_world c) files;
          c1 = c\<lparr>cmd_world := w\<rparr>
      in if list_all (\<lambda>v. v \<noteq> None) vals then
           (case destroy c1 of
              Inl c' \<Rightarrow> c'
            | Inr c' \<Rightarrow>
                (let errors = concat (map (\<lambda>v. case v of Some (Some e) \<Rightarrow> [e] | _ \<Rightarrow> []) vals)
                 in if length errors = 0 then c'\<lparr>cmd_world := closeOk (cmd_world c')\<rparr>
                    else c'\<lparr>cmd_world := snd (closeError cx (cmd_world c') (Unknown errors))\<rparr>))
         else c1)"

text \<open>
  What the browser delivers after \<^verbatim>\<open>import\<close> has returned: a \<^verbatim>\<open>focus\<close> event on the
  dummy input, the firing of a pending timer, and a \<^verbatim>\<open>change\<close> event on the file
  input with the files chosen.
\<close>

datatype browser_event = FocusEvent | Timeout | ChangeEvent "js_file list"

fun handle_event ::
  "env \<Rightarrow> 'fs execute_context \<Rightarrow> 'fs import_command \<Rightarrow> browser_event \<Rightarrow> 'fs import_command" where
  "handle_event E cx c FocusEvent = handleFileCancel c"
| "handle_event E cx c Timeout =
     (if timers c = 0 then c else handleFileCancel_timeout cx (c\<lparr>timers := timers c - 1\<rparr>))"
| "handle_event E cx c (ChangeEvent files) = handleFileSelect E cx c files"

text \<open>
  \<^verbatim>\<open>main\<close> of \<^verbatim>\<open>import\<close>: \<open>Inl\<close> when it has closed the context itself, \<open>Inr\<close> the
  command that waits for the browser.
\<close>

definition import_main ::
  "env \<Rightarrow> 'fs execute_context \<Rightarrow> 'fs world \<Rightarrow> 'fs world + 'fs import_command" where
  "import_main E cx w0 =
     (let w = emit Ready w0;
          list = getArg_list cx [];
          forceSingleFile = arg_file cx
      in if length list > 1 \<or> arg_help cx then Inl (closeOk (stdout_write import_usage w))
         else
           (let pathSpec = (if length list \<noteq> 0 then hd list else ''.'');
                pwd = getPwd cx;
                p = Path_abs E pwd pathSpec
            in Inr (ImportCommand_import w p forceSingleFile)))"

definition import_run ::
  "env \<Rightarrow> 'fs execute_context \<Rightarrow> 'fs world \<Rightarrow> browser_event list \<Rightarrow> 'fs world" where
  "import_run E cx w0 evs =
     (case import_main E cx w0 of
        Inl w \<Rightarrow> w
      | Inr c \<Rightarrow> cmd_world (foldl (handle_event E cx) c evs))"

section \<open>Properties of a run\<close>

text \<open>The number of calls of \<^verbatim>\<open>closeOk\<close> and \<^verbatim>\<open>closeError\<close> in a trace.\<close>

fun is_close :: "event \<Rightarrow> bool" where
  "is_close CloseOk = True"
| "is_close (CloseError e) = True"
| "is_close _ = False"

definition closes :: "event list \<Rightarrow> nat" where
  "closes tr = length (filter is_close tr)"

text \<open>
  A target of \<^verbatim>\<open>ls\<close> fails hard in a world when \<^verbatim>\<open>list\<close> rejects with a value that
  is not a TypeMismatch, or rejects with a TypeMismatch and the \<^verbatim>\<open>stat\<close> that follows
  rejects: the file system calls made for the target and the rejection value.
\<close>

definition hard_failure ::
  "'fs execute_context \<Rightarrow> 'fs world \<Rightarrow> path \<Rightarrow> (event list \<times> error) option" where
  "hard_failure cx w p =
     (case fs_list (fileSystemManager cx) (fsys w) p of
        (Inr listResult, fs1) \<Rightarrow> None
      | (Inl v, fs1) \<Rightarrow>
          if TypeMismatch_test v then
            (case fst (fs_stat (fileSystemManager cx) fs1 p) of
               Inr stat \<Rightarrow> None
             | Inl v2 \<Rightarrow> Some ([FsList p, FsStat p], v2))
          else Some ([FsList p], v))"

text \<open>
  What \<^verbatim>\<open>mkdir\<close> answers on each path of a list when the calls are made one after
  the other, each on the file system the one before has left; and the trace a target
  leaves: the call, and a line naming the path when the call failed.
\<close>

fun mkdir_results :: "'fs fsm \<Rightarrow> 'fs \<Rightarrow> path list \<Rightarrow> error option list" where
  "mkdir_results m fs [] = []"
| "mkdir_results m fs (p # ps) =
     (let (r, fs') = fs_mkdir m fs p in r # mkdir_results m fs' ps)"

definition toString_returns :: "error option \<Rightarrow> bool" where
  "toString_returns r = (case r of None \<Rightarrow> True | Some e \<Rightarrow> \<not> nullish e)"

definition mkdir_step :: "env \<Rightarrow> path \<times> error option \<Rightarrow> event list" where
  "mkdir_step E pr =
     FsMkdir (fst pr) #
     (case snd pr of
        None \<Rightarrow> []
      | Some e \<Rightarrow>
          [StdoutWrite (''mkdir: '' @ originalSpec (fst pr) @ '': '' @ error_toString E e @ newline)])"

section \<open>An instance for evaluation\<close>

text \<open>
  An instance of the parameters, to evaluate the commands on concrete inputs: the mode
  bits, a \<^verbatim>\<open>Path.abs\<close> that puts the spec under the working directory, UTC as the
  local time zone, and a small file system in memory that maps the spec of a path to a
  directory with its listing or to a file with its stat result.
\<close>

definition example_env :: env where
  "example_env =
     \<lparr>Mode_X = 1, Mode_D = 8,
      modeIntToString = (\<lambda>m. show_int m),
      Path_abs = (\<lambda>pwd pathSpec.
         Path (pwd @ ''/'' @ pathSpec) pathSpec pathSpec (Some (Path pwd pwd pwd None))),
      error_toString = (\<lambda>e. ''AxiomError''),
      LocalTZA = (\<lambda>t. 0),
      toLocaleTimeString = (\<lambda>t. ''12:00:00 AM'')\<rparr>"

datatype node = Dir list_result | File stat_result

type_synonym example_fs = "(string \<times> node) list"

definition example_fsm :: "example_fs fsm" where
  "example_fsm =
     \<lparr>fs_list = (\<lambda>fs p. case map_of fs (spec p) of
                    None \<Rightarrow> (Inl NotFound, fs)
                  | Some (File st) \<Rightarrow> (Inl TypeMismatch, fs)
                  | Some (Dir lr) \<Rightarrow> (Inr lr, fs)),
      fs_stat = (\<lambda>fs p. case map_of fs (spec p) of
                    None \<Rightarrow> (Inl NotFound, fs)
                  | Some (File st) \<Rightarrow> (Inr st, fs)
                  | Some (Dir lr) \<Rightarrow> (Inr \<lparr>mode = 8, mtime = None, props = []\<rparr>, fs)),
      fs_mkdir = (\<lambda>fs p. case map_of fs (spec p) of
                    None \<Rightarrow> (None, (spec p, Dir []) # fs)
                  | Some n \<Rightarrow> (Some Duplicate, fs)),
      fs_move = (\<lambda>fs p q. case map_of fs (spec p) of
                    None \<Rightarrow> (Some NotFound, fs)
                  | Some n \<Rightarrow> (None, (spec q, n) # filter (\<lambda>kv. fst kv \<noteq> spec p) fs)),
      fs_writeFile = (\<lambda>fs p content.
                    (None, (spec p, File \<lparr>mode = 6, mtime = None, props = []\<rparr>) # fs))\<rparr>"

definition example_stat :: stat_result where
  "example_stat = \<lparr>mode = 6, mtime = Some 1700000000000, props = [(''size'', Num 12)]\<rparr>"

definition example_fs :: example_fs where
  "example_fs =
     [(''/home/notes'', File example_stat),
      (''/home/one'', Dir [(''notes'', example_stat)]),
      (''/home/docs'', Dir [(''notes'', example_stat),
                            (''bin'', \<lparr>mode = 8, mtime = None, props = []\<rparr>)]),
      (''/home/b'', Dir [])]"

definition example_cx :: "bool \<Rightarrow> string list \<Rightarrow> example_fs execute_context" where
  "example_cx help targets =
     \<lparr>arg_help = help, arg_file = False, arg_positional = Some targets,
      getPwd = ''/home'', fileSystemManager = example_fsm\<rparr>"

section \<open>formatStat: which entries show a signature\<close>

lemma word_xor_eq_0_iff: "(a XOR b = 0) = (a = b)" for a b :: "32 word"
  by (metis bit.xor_left_self xor.right_neutral)

lemma formatStat_keys_X: "mode stat = Mode_X E \<Longrightarrow> formatStat_keys E stat = [''signature'']"
  by (simp add: formatStat_keys_def)

lemma formatStat_keys_low_bits_differ:
  "ToInt32 (mode stat) \<noteq> ToInt32 (Mode_X E) \<Longrightarrow>
     formatStat_keys E stat = filter (\<lambda>n. n \<noteq> ''signature'') (sort (Object_keys stat))"
  by (auto simp add: formatStat_keys_def Let_def word_xor_eq_0_iff)

lemma formatStat_keys_high_bits_differ:
  "mode stat \<noteq> Mode_X E \<Longrightarrow> ToInt32 (mode stat) = ToInt32 (Mode_X E) \<Longrightarrow>
     formatStat_keys E stat = sort (Object_keys stat)"
  by (simp add: formatStat_keys_def Let_def)

lemma formatStat_keys_other_keys:
  "mode stat \<noteq> Mode_X E \<Longrightarrow>
     filter (\<lambda>n. n \<noteq> ''signature'') (formatStat_keys E stat) =
     filter (\<lambda>n. n \<noteq> ''signature'') (sort (Object_keys stat))"
  by (simp add: formatStat_keys_def Let_def)

lemma executable_bit_clear_differs:
  "w \<noteq> 0 \<Longrightarrow> v AND w = 0 \<Longrightarrow> v \<noteq> w" for v w :: "32 word"
  by auto

text \<open>
  C3, as the claim states it, with "the mode indicates executable" read on the bit mask
  as the directory test of the listing reads the directory bit: an executable directory
  (mode \<open>X OR D\<close>) with a signature is rendered by its mode alone, not by its
  signature.
\<close>

theorem formatStat_executable_bit_counterexample:
  \<open>\<not> (ToInt32 (mode \<lparr>mode = 9, mtime = None, props = [(''signature'', Str ''sig'')]\<rparr>)
          AND ToInt32 (Mode_X example_env) \<noteq> 0 \<longrightarrow>
        formatStat_keys example_env
          \<lparr>mode = 9, mtime = None, props = [(''signature'', Str ''sig'')]\<rparr> = [''signature''])
   \<and> formatStat example_env \<lparr>mode = 9, mtime = None, props = [(''signature'', Str ''sig'')]\<rparr>
       = ''mode: "9"''\<close>
  by code_simp

text \<open>
  C3, amended: for every stat result whose mode equals the executable mode value,
  \<open>formatStat\<close> yields exactly one field, \<open>signature\<close>; for every stat result whose
  mode differs from the executable mode value within the low 32 bits (the bits that the
  operator \<^verbatim>\<open>^\<close> sees), the output has no \<open>signature\<close> field: it is the fields of the
  other keys, in sorted order. When the executable mode value has a bit among its low 32,
  this is so in particular for every stat result whose mode has none of its bits.
\<close>

theorem formatStat_signature_exclusive:
  "(mode stat = Mode_X E \<longrightarrow>
      formatStat_keys E stat = [''signature''] \<and>
      formatStat_ary E stat = [''signature: '' @ JSON_stringify (get_prop stat ''signature'')] \<and>
      formatStat E stat = ''signature: '' @ JSON_stringify (get_prop stat ''signature'')) \<and>
   (ToInt32 (mode stat) \<noteq> ToInt32 (Mode_X E) \<longrightarrow>
      ''signature'' \<notin> set (formatStat_keys E stat) \<and>
      formatStat E stat =
        join '', '' (map (formatStat_field E stat)
                      (filter (\<lambda>n. n \<noteq> ''signature'') (sort (Object_keys stat))))) \<and>
   (ToInt32 (Mode_X E) \<noteq> 0 \<and> ToInt32 (mode stat) AND ToInt32 (Mode_X E) = 0 \<longrightarrow>
      ''signature'' \<notin> set (formatStat_keys E stat) \<and>
      formatStat E stat =
        join '', '' (map (formatStat_field E stat)
                      (filter (\<lambda>n. n \<noteq> ''signature'') (sort (Object_keys stat)))))"
proof (intro conjI impI)
  assume "mode stat = Mode_X E"
  then have keys: "formatStat_keys E stat = [''signature'']"
    by (rule formatStat_keys_X)
  show "formatStat_keys E stat = [''signature'']"
    by (rule keys)
  show "formatStat_ary E stat = [''signature: '' @ JSON_stringify (get_prop stat ''signature'')]"
    by (simp add: keys formatStat_ary_def formatStat_field_def formatStat_value_def)
  then show "formatStat E stat = ''signature: '' @ JSON_stringify (get_prop stat ''signature'')"
    by (simp add: formatStat_def)
next
  assume "ToInt32 (mode stat) \<noteq> ToInt32 (Mode_X E)"
  then have keys: "formatStat_keys E stat =
      filter (\<lambda>n. n \<noteq> ''signature'') (sort (Object_keys stat))"
    by (rule formatStat_keys_low_bits_differ)
  show "''signature'' \<notin> set (formatStat_keys E stat)"
    by (simp add: keys)
  show "formatStat E stat =
        join '', '' (map (formatStat_field E stat)
                      (filter (\<lambda>n. n \<noteq> ''signature'') (sort (Object_keys stat))))"
    by (simp add: keys formatStat_def formatStat_ary_def)
next
  assume "ToInt32 (Mode_X E) \<noteq> 0 \<and> ToInt32 (mode stat) AND ToInt32 (Mode_X E) = 0"
  then have "ToInt32 (mode stat) \<noteq> ToInt32 (Mode_X E)"
    using executable_bit_clear_differs by blast
  then have keys: "formatStat_keys E stat =
      filter (\<lambda>n. n \<noteq> ''signature'') (sort (Object_keys stat))"
    by (rule formatStat_keys_low_bits_differ)
  show "''signature'' \<notin> set (formatStat_keys E stat)"
    by (simp add: keys)
  show "formatStat E stat =
        join '', '' (map (formatStat_field E stat)
                      (filter (\<lambda>n. n \<noteq> ''signature'') (sort (Object_keys stat))))"
    by (simp add: keys formatStat_def formatStat_ary_def)
qed

theorem formatStat_signature_exclusive_witness:
  \<open>mode \<lparr>mode = 1, mtime = Some 0, props = [(''signature'', Str ''sig'')]\<rparr> = Mode_X example_env \<and>
   formatStat example_env \<lparr>mode = 1, mtime = Some 0, props = [(''signature'', Str ''sig'')]\<rparr>
     = ''signature: "sig"'' \<and>
   ToInt32 (mode \<lparr>mode = 9, mtime = None, props = [(''signature'', Str ''sig'')]\<rparr>)
     \<noteq> ToInt32 (Mode_X example_env) \<and>
   ''signature'' \<notin> set (formatStat_keys example_env
      \<lparr>mode = 9, mtime = None, props = [(''signature'', Str ''sig'')]\<rparr>) \<and>
   ToInt32 (Mode_X example_env) \<noteq> 0 \<and>
   ToInt32 (mode \<lparr>mode = 8, mtime = None, props = [(''signature'', Str ''sig'')]\<rparr>)
     AND ToInt32 (Mode_X example_env) = 0 \<and>
   formatStat example_env \<lparr>mode = 8, mtime = None, props = [(''signature'', Str ''sig'')]\<rparr>
     = ''mode: "8"''\<close>
proof -
  let ?x = "\<lparr>mode = 1, mtime = Some 0, props = [(''signature'', Str ''sig'')]\<rparr>"
  let ?d = "\<lparr>mode = 9, mtime = None, props = [(''signature'', Str ''sig'')]\<rparr>"
  let ?r = "\<lparr>mode = 8, mtime = None, props = [(''signature'', Str ''sig'')]\<rparr>"
  have x: "mode ?x = Mode_X example_env"
    by code_simp
  have d: "ToInt32 (mode ?d) \<noteq> ToInt32 (Mode_X example_env)"
    by code_simp
  have X: "ToInt32 (Mode_X example_env) \<noteq> 0"
    by code_simp
  have r: "ToInt32 (mode ?r) AND ToInt32 (Mode_X example_env) = 0"
    by code_simp
  have v: \<open>''signature: '' @ JSON_stringify (get_prop ?x ''signature'') = ''signature: "sig"''\<close>
    by code_simp
  from formatStat_signature_exclusive [of ?x example_env] x
  have "formatStat example_env ?x = ''signature: '' @ JSON_stringify (get_prop ?x ''signature'')"
    by blast
  from this v have fx: \<open>formatStat example_env ?x = ''signature: "sig"''\<close>
    by (rule trans)
  from formatStat_signature_exclusive [of ?d example_env] d
  have fd: "''signature'' \<notin> set (formatStat_keys example_env ?d)"
    by blast
  have vr: \<open>join '', '' (map (formatStat_field example_env ?r)
      (filter (\<lambda>n. n \<noteq> ''signature'') (sort (Object_keys ?r)))) = ''mode: "8"''\<close>
    by code_simp
  from formatStat_signature_exclusive [of ?r example_env] X r
  have "formatStat example_env ?r = join '', '' (map (formatStat_field example_env ?r)
      (filter (\<lambda>n. n \<noteq> ''signature'') (sort (Object_keys ?r))))"
    by blast
  from this vr have fr: \<open>formatStat example_env ?r = ''mode: "8"''\<close>
    by (rule trans)
  from x fx d fd X r fr show ?thesis
    by blast
qed

text \<open>
  C10, as the claim states it: the mode \<open>X + 2^32\<close> combines the executable bit with
  another bit and is not equal to the executable mode value, but \<^verbatim>\<open>stat.mode ^ Path.Mode.X\<close>
  is computed on the low 32 bits and is 0: neither branch is taken and the signature is
  rendered with the other fields.
\<close>

theorem formatStat_mode_above_32_bits_counterexample:
  \<open>\<not> (mode \<lparr>mode = 4294967297, mtime = None, props = [(''signature'', Str ''sig'')]\<rparr>
          AND Mode_X example_env \<noteq> 0 \<and>
        mode \<lparr>mode = 4294967297, mtime = None, props = [(''signature'', Str ''sig'')]\<rparr>
          \<noteq> Mode_X example_env \<longrightarrow>
        ''signature'' \<notin> set (formatStat_keys example_env
          \<lparr>mode = 4294967297, mtime = None, props = [(''signature'', Str ''sig'')]\<rparr>))
   \<and> formatStat example_env
        \<lparr>mode = 4294967297, mtime = None, props = [(''signature'', Str ''sig'')]\<rparr>
       = ''mode: "4294967297", signature: "sig"''\<close>
  by code_simp

text \<open>
  C10, amended: \<open>formatStat\<close> renders the signature alone when the mode equals the
  executable mode value, and for every other mode it renders every key other than
  \<open>signature\<close>. For every mode whose low 32 bits combine the executable bit with another
  bit (for example an executable directory), and for every mode whose low 32 bits are
  without the executable bit, the \<open>signature\<close> key is not among the keys rendered,
  whatever the properties of the entry. A mode that differs from the executable mode
  value only above the low 32 bits is rendered with all its keys, \<open>signature\<close> among
  them when the entry has one.
\<close>

theorem formatStat_signature_only_at_exact_mode:
  "(mode stat = Mode_X E \<longrightarrow>
      formatStat E stat = ''signature: '' @ JSON_stringify (get_prop stat ''signature'')) \<and>
   (mode stat \<noteq> Mode_X E \<longrightarrow>
      filter (\<lambda>n. n \<noteq> ''signature'') (formatStat_keys E stat) =
      filter (\<lambda>n. n \<noteq> ''signature'') (sort (Object_keys stat))) \<and>
   (ToInt32 (Mode_X E) \<noteq> 0 \<longrightarrow>
      (ToInt32 (mode stat) AND ToInt32 (Mode_X E) \<noteq> 0 \<and>
       ToInt32 (mode stat) \<noteq> ToInt32 (Mode_X E)) \<or>
      ToInt32 (mode stat) AND ToInt32 (Mode_X E) = 0 \<longrightarrow>
      ''signature'' \<notin> set (formatStat_keys E stat) \<and>
      formatStat E stat =
        join '', '' (map (formatStat_field E stat)
                      (filter (\<lambda>n. n \<noteq> ''signature'') (sort (Object_keys stat))))) \<and>
   (mode stat \<noteq> Mode_X E \<and> ToInt32 (mode stat) = ToInt32 (Mode_X E) \<longrightarrow>
      formatStat E stat = join '', '' (map (formatStat_field E stat) (sort (Object_keys stat))))"
proof (intro conjI impI)
  assume "mode stat = Mode_X E"
  then show "formatStat E stat = ''signature: '' @ JSON_stringify (get_prop stat ''signature'')"
    by (simp add: formatStat_keys_X formatStat_def formatStat_ary_def formatStat_field_def
        formatStat_value_def)
next
  assume "mode stat \<noteq> Mode_X E"
  then show "filter (\<lambda>n. n \<noteq> ''signature'') (formatStat_keys E stat) =
      filter (\<lambda>n. n \<noteq> ''signature'') (sort (Object_keys stat))"
    by (rule formatStat_keys_other_keys)
next
  assume X: "ToInt32 (Mode_X E) \<noteq> 0"
    and m: "(ToInt32 (mode stat) AND ToInt32 (Mode_X E) \<noteq> 0 \<and>
             ToInt32 (mode stat) \<noteq> ToInt32 (Mode_X E)) \<or>
            ToInt32 (mode stat) AND ToInt32 (Mode_X E) = 0"
  have "ToInt32 (mode stat) \<noteq> ToInt32 (Mode_X E)"
    using X m executable_bit_clear_differs by blast
  then have keys: "formatStat_keys E stat =
      filter (\<lambda>n. n \<noteq> ''signature'') (sort (Object_keys stat))"
    by (rule formatStat_keys_low_bits_differ)
  show "''signature'' \<notin> set (formatStat_keys E stat)"
    by (simp add: keys)
  show "formatStat E stat =
        join '', '' (map (formatStat_field E stat)
                      (filter (\<lambda>n. n \<noteq> ''signature'') (sort (Object_keys stat))))"
    by (simp add: keys formatStat_def formatStat_ary_def)
next
  assume "mode stat \<noteq> Mode_X E \<and> ToInt32 (mode stat) = ToInt32 (Mode_X E)"
  then have "formatStat_keys E stat = sort (Object_keys stat)"
    by (simp add: formatStat_keys_high_bits_differ)
  then show "formatStat E stat =
      join '', '' (map (formatStat_field E stat) (sort (Object_keys stat)))"
    by (simp add: formatStat_def formatStat_ary_def)
qed

theorem formatStat_signature_only_at_exact_mode_witness:
  \<open>ToInt32 (Mode_X example_env) \<noteq> 0 \<and>
   ToInt32 (mode \<lparr>mode = 9, mtime = None, props = [(''signature'', Str ''sig'')]\<rparr>)
     AND ToInt32 (Mode_X example_env) \<noteq> 0 \<and>
   formatStat example_env \<lparr>mode = 9, mtime = None, props = [(''signature'', Str ''sig'')]\<rparr>
     = ''mode: "9"'' \<and>
   ToInt32 (mode \<lparr>mode = 8, mtime = None, props = [(''signature'', Str ''sig'')]\<rparr>)
     AND ToInt32 (Mode_X example_env) = 0 \<and>
   ''signature'' \<notin> set (formatStat_keys example_env
      \<lparr>mode = 8, mtime = None, props = [(''signature'', Str ''sig'')]\<rparr>) \<and>
   mode \<lparr>mode = 1, mtime = None, props = [(''signature'', Str ''sig'')]\<rparr> = Mode_X example_env \<and>
   formatStat example_env \<lparr>mode = 1, mtime = None, props = [(''signature'', Str ''sig'')]\<rparr>
     = ''signature: "sig"'' \<and>
   mode \<lparr>mode = 4294967297, mtime = None, props = [(''signature'', Str ''sig'')]\<rparr>
     \<noteq> Mode_X example_env \<and>
   ToInt32 (mode \<lparr>mode = 4294967297, mtime = None, props = [(''signature'', Str ''sig'')]\<rparr>)
     = ToInt32 (Mode_X example_env) \<and>
   formatStat example_env
     \<lparr>mode = 4294967297, mtime = None, props = [(''signature'', Str ''sig'')]\<rparr>
     = ''mode: "4294967297", signature: "sig"''\<close>
proof -
  let ?d = "\<lparr>mode = 9, mtime = None, props = [(''signature'', Str ''sig'')]\<rparr>"
  let ?r = "\<lparr>mode = 8, mtime = None, props = [(''signature'', Str ''sig'')]\<rparr>"
  let ?x = "\<lparr>mode = 1, mtime = None, props = [(''signature'', Str ''sig'')]\<rparr>"
  let ?h = "\<lparr>mode = 4294967297, mtime = None, props = [(''signature'', Str ''sig'')]\<rparr>"
  have X: "ToInt32 (Mode_X example_env) \<noteq> 0"
    by code_simp
  have d: "ToInt32 (mode ?d) AND ToInt32 (Mode_X example_env) \<noteq> 0"
    "ToInt32 (mode ?d) \<noteq> ToInt32 (Mode_X example_env)"
    by code_simp+
  have r: "ToInt32 (mode ?r) AND ToInt32 (Mode_X example_env) = 0"
    by code_simp
  have x: "mode ?x = Mode_X example_env"
    by code_simp
  have h: "mode ?h \<noteq> Mode_X example_env" "ToInt32 (mode ?h) = ToInt32 (Mode_X example_env)"
    by code_simp+
  have vd: \<open>join '', '' (map (formatStat_field example_env ?d)
      (filter (\<lambda>n. n \<noteq> ''signature'') (sort (Object_keys ?d)))) = ''mode: "9"''\<close>
    by code_simp
  have vx: \<open>''signature: '' @ JSON_stringify (get_prop ?x ''signature'') = ''signature: "sig"''\<close>
    by code_simp
  have vh: \<open>join '', '' (map (formatStat_field example_env ?h) (sort (Object_keys ?h)))
      = ''mode: "4294967297", signature: "sig"''\<close>
    by code_simp
  from formatStat_signature_only_at_exact_mode [of ?d example_env] X d
  have "formatStat example_env ?d = join '', '' (map (formatStat_field example_env ?d)
      (filter (\<lambda>n. n \<noteq> ''signature'') (sort (Object_keys ?d))))"
    by blast
  from this vd have fd: \<open>formatStat example_env ?d = ''mode: "9"''\<close>
    by (rule trans)
  from formatStat_signature_only_at_exact_mode [of ?r example_env] X r
  have fr: "''signature'' \<notin> set (formatStat_keys example_env ?r)"
    by blast
  from formatStat_signature_only_at_exact_mode [of ?x example_env] x
  have "formatStat example_env ?x = ''signature: '' @ JSON_stringify (get_prop ?x ''signature'')"
    by blast
  from this vx have fx: \<open>formatStat example_env ?x = ''signature: "sig"''\<close>
    by (rule trans)
  from formatStat_signature_only_at_exact_mode [of ?h example_env] h
  have "formatStat example_env ?h =
      join '', '' (map (formatStat_field example_env ?h) (sort (Object_keys ?h)))"
    by blast
  from this vh have fh: \<open>formatStat example_env ?h = ''mode: "4294967297", signature: "sig"''\<close>
    by (rule trans)
  from X d(1) fd r fr x fx h fh show ?thesis
    by blast
qed

section \<open>formatStat: the date of mtime\<close>

text \<open>
  C4 at a concrete entry: 1700000000000 is 14 November 2023 (a Tuesday) in UTC; the
  date \<open>formatStat\<close> renders has the index of the day of the week, 02, where the day of
  the month, 14, belongs.
\<close>

theorem formatStat_mtime_day_of_week:
  \<open>formatStat example_env \<lparr>mode = 6, mtime = Some 1700000000000, props = [(''size'', Num 12)]\<rparr>
     = ''mode: "6", mtime: "2023-11-02 12:00:00 AM", size: 12'' \<and>
   DateFromTime (1700000000000 + LocalTZA example_env 1700000000000) = 14 \<and>
   WeekDay (1700000000000 + LocalTZA example_env 1700000000000) = 2\<close>
  by code_simp

section \<open>mv\<close>

lemma trace_emit: "trace (emit ev w) = trace w @ [ev]"
  by (simp add: emit_def)

lemma fsys_emit: "fsys (emit ev w) = fsys w"
  by (simp add: emit_def)

lemma trace_closeOk: "trace (closeOk w) = trace w @ [CloseOk]"
  by (simp add: closeOk_def trace_emit)

lemma trace_closeError: "trace (snd (closeError cx w v)) = trace w @ [CloseError v]"
  by (simp add: closeError_def trace_emit)

lemma trace_stdout_write: "trace (stdout_write s w) = trace w @ [StdoutWrite s]"
  by (simp add: stdout_write_def trace_emit)

lemma fsys_stdout_write: "fsys (stdout_write s w) = fsys w"
  by (simp add: stdout_write_def fsys_emit)

lemma trace_start: "trace (start fs) = []"
  by (simp add: start_def)

lemma fsys_start: "fsys (start fs) = fs"
  by (simp add: start_def)

lemma call_move_eq:
  "call_move cx w p q =
     (fst (fs_move (fileSystemManager cx) (fsys w) p q),
      \<lparr>fsys = snd (fs_move (fileSystemManager cx) (fsys w) p q), trace = trace w @ [FsMove p q]\<rparr>)"
  by (simp add: call_move_def emit_def split: prod.split)

lemma call_mkdir_eq:
  "call_mkdir cx w p =
     (fst (fs_mkdir (fileSystemManager cx) (fsys w) p),
      \<lparr>fsys = snd (fs_mkdir (fileSystemManager cx) (fsys w) p), trace = trace w @ [FsMkdir p]\<rparr>)"
  by (simp add: call_mkdir_def emit_def split: prod.split)

text \<open>
  C6, as the claim states it: with two positional arguments and the help flag, \<open>mv\<close>
  writes its usage and closes Ok; \<open>move\<close> is not called.
\<close>

theorem mv_help_with_two_arguments_counterexample:
  "length (getArg_list (example_cx True [''notes'', ''b'']) []) = 2 \<and>
   trace (mv_main example_env (example_cx True [''notes'', ''b'']) (start example_fs))
     = [Ready, StdoutWrite mv_usage, CloseOk]"
  by (simp add: mv_main_def example_cx_def getArg_list_def trace_closeOk trace_stdout_write
      trace_emit trace_start)

text \<open>
  C6, amended: if the positional argument count is not exactly two or the help flag is
  set, \<open>mv\<close> writes the usage text and closes Ok without calling \<open>move\<close>; with
  exactly two arguments and no help flag it calls \<open>move\<close> exactly once, on the two
  paths resolved against the working directory, and then closes Ok when the move
  succeeded and closes with the error of the move, unchanged, when it failed.
\<close>

theorem mv_main_trace:
  "(length (getArg_list cx []) \<noteq> 2 \<or> arg_help cx \<longrightarrow>
      trace (mv_main E cx (start fs)) = [Ready, StdoutWrite mv_usage, CloseOk]) \<and>
   (length (getArg_list cx []) = 2 \<and> \<not> arg_help cx \<longrightarrow>
      trace (mv_main E cx (start fs)) =
        [Ready,
         FsMove (Path_abs E (getPwd cx) (getArg_list cx [] ! 0))
                (Path_abs E (getPwd cx) (getArg_list cx [] ! 1)),
         case fst (fs_move (fileSystemManager cx) fs
                     (Path_abs E (getPwd cx) (getArg_list cx [] ! 0))
                     (Path_abs E (getPwd cx) (getArg_list cx [] ! 1))) of
           None \<Rightarrow> CloseOk
         | Some err \<Rightarrow> CloseError err])"
proof (intro conjI impI)
  assume "length (getArg_list cx []) \<noteq> 2 \<or> arg_help cx"
  then show "trace (mv_main E cx (start fs)) = [Ready, StdoutWrite mv_usage, CloseOk]"
    by (auto simp add: mv_main_def Let_def trace_closeOk trace_stdout_write trace_emit trace_start)
next
  assume two: "length (getArg_list cx []) = 2 \<and> \<not> arg_help cx"
  let ?from = "Path_abs E (getPwd cx) (getArg_list cx [] ! 0)"
  let ?to = "Path_abs E (getPwd cx) (getArg_list cx [] ! 1)"
  show "trace (mv_main E cx (start fs)) =
        [Ready, FsMove ?from ?to,
         case fst (fs_move (fileSystemManager cx) fs ?from ?to) of
           None \<Rightarrow> CloseOk
         | Some err \<Rightarrow> CloseError err]"
    using two
    by (simp add: mv_main_def Let_def call_move_eq trace_closeOk trace_closeError trace_emit
        fsys_emit trace_start fsys_start split: option.split)
qed

theorem mv_main_trace_witness:
  "trace (mv_main example_env (example_cx False [''notes'']) (start example_fs))
     = [Ready, StdoutWrite mv_usage, CloseOk] \<and>
   trace (mv_main example_env (example_cx False [''notes'', ''moved'']) (start example_fs))
     = [Ready,
        FsMove (Path_abs example_env ''/home'' ''notes'') (Path_abs example_env ''/home'' ''moved''),
        CloseOk] \<and>
   trace (mv_main example_env (example_cx False [''absent'', ''moved'']) (start example_fs))
     = [Ready,
        FsMove (Path_abs example_env ''/home'' ''absent'') (Path_abs example_env ''/home'' ''moved''),
        CloseError NotFound]"
proof -
  let ?one = "example_cx False [''notes'']"
  let ?ok = "example_cx False [''notes'', ''moved'']"
  let ?bad = "example_cx False [''absent'', ''moved'']"
  have one: "length (getArg_list ?one []) \<noteq> 2 \<or> arg_help ?one"
    by code_simp
  have ok: "length (getArg_list ?ok []) = 2 \<and> \<not> arg_help ?ok"
    by code_simp
  have bad: "length (getArg_list ?bad []) = 2 \<and> \<not> arg_help ?bad"
    by code_simp
  have args: "getPwd ?ok = ''/home''" "getArg_list ?ok [] ! 0 = ''notes''"
    "getArg_list ?ok [] ! 1 = ''moved''" "getPwd ?bad = ''/home''"
    "getArg_list ?bad [] ! 0 = ''absent''" "getArg_list ?bad [] ! 1 = ''moved''"
    by (simp_all add: example_cx_def getArg_list_def)
  have r_ok: "fst (fs_move (fileSystemManager ?ok) example_fs
                 (Path_abs example_env ''/home'' ''notes'')
                 (Path_abs example_env ''/home'' ''moved'')) = None"
    by code_simp
  have r_bad: "fst (fs_move (fileSystemManager ?bad) example_fs
                 (Path_abs example_env ''/home'' ''absent'')
                 (Path_abs example_env ''/home'' ''moved'')) = Some NotFound"
    by code_simp
  from mv_main_trace [of ?one example_env example_fs] one
  have t1: "trace (mv_main example_env ?one (start example_fs)) = [Ready, StdoutWrite mv_usage, CloseOk]"
    by blast
  from mv_main_trace [of ?ok example_env example_fs] ok
  have t2: "trace (mv_main example_env ?ok (start example_fs)) =
      [Ready,
       FsMove (Path_abs example_env ''/home'' ''notes'') (Path_abs example_env ''/home'' ''moved''),
       CloseOk]"
    by (simp only: args r_ok option.case simp_thms)
  from mv_main_trace [of ?bad example_env example_fs] bad
  have t3: "trace (mv_main example_env ?bad (start example_fs)) =
      [Ready,
       FsMove (Path_abs example_env ''/home'' ''absent'') (Path_abs example_env ''/home'' ''moved''),
       CloseError NotFound]"
    by (simp only: args r_bad option.case simp_thms)
  from t1 t2 t3 show ?thesis
    by blast
qed

section \<open>mkdir\<close>

lemma mkdirNext_returns:
  "list_all toString_returns
     (mkdir_results (fileSystemManager cx) (fsys w) (map (Path_abs E (getPwd cx)) list)) \<Longrightarrow>
   fst (mkdirNext E cx (errors, list, w)) = None \<and>
   fst (snd (mkdirNext E cx (errors, list, w))) =
     (errors \<or> list_ex (\<lambda>r. r \<noteq> None)
        (mkdir_results (fileSystemManager cx) (fsys w) (map (Path_abs E (getPwd cx)) list))) \<and>
   trace (snd (snd (snd (mkdirNext E cx (errors, list, w))))) =
     trace w @ concat (map (mkdir_step E)
       (zip (map (Path_abs E (getPwd cx)) list)
            (mkdir_results (fileSystemManager cx) (fsys w) (map (Path_abs E (getPwd cx)) list))))"
proof (induction list arbitrary: errors w)
  case Nil
  show ?case by simp
next
  case (Cons pathSpec list)
  let ?p = "Path_abs E (getPwd cx) pathSpec"
  let ?r = "fst (fs_mkdir (fileSystemManager cx) (fsys w) ?p)"
  let ?w1 = "\<lparr>fsys = snd (fs_mkdir (fileSystemManager cx) (fsys w) ?p),
             trace = trace w @ [FsMkdir ?p]\<rparr>"
  have call: "call_mkdir cx w ?p = (?r, ?w1)"
    by (rule call_mkdir_eq)
  have rest: "list_all toString_returns
     (mkdir_results (fileSystemManager cx) (fsys ?w1) (map (Path_abs E (getPwd cx)) list))"
    using Cons.prems by (simp add: split_beta)
  have this_one: "toString_returns ?r"
    using Cons.prems by (simp add: split_beta)
  show ?case
  proof (cases ?r)
    case None
    obtain st where st: "mkdirNext E cx (errors, list, ?w1) = (None, st)"
      using Cons.IH [OF rest, of errors] by (cases "mkdirNext E cx (errors, list, ?w1)") simp
    show ?thesis
      using Cons.IH [OF rest, of errors] None st
      by (simp add: call Let_def split_beta mkdir_step_def)
  next
    case (Some e)
    let ?line = "''mkdir: '' @ originalSpec ?p @ '': '' @ error_toString E e @ newline"
    let ?w2 = "stdout_write ?line ?w1"
    have "\<not> nullish e"
      using this_one Some by (simp add: toString_returns_def)
    then have catch: "mkdir_catch E ?p e (errors, list, ?w1) = (None, True, list, ?w2)"
      by (simp add: mkdir_catch_def toString_def)
    have rest2: "list_all toString_returns
       (mkdir_results (fileSystemManager cx) (fsys ?w2) (map (Path_abs E (getPwd cx)) list))"
      using rest by (simp add: fsys_stdout_write)
    show ?thesis
      using Cons.IH [OF rest2, of True] Some
      by (simp add: call catch Let_def split_beta mkdir_step_def fsys_stdout_write
          trace_stdout_write)
  qed
qed

text \<open>
  A \<open>mkdir\<close> that rejects with \<^verbatim>\<open>undefined\<close>: \<^verbatim>\<open>e.toString()\<close> throws in the handler,
  no line is written, the promise of \<^verbatim>\<open>mkdirNext()\<close> rejects and \<^verbatim>\<open>main\<close> closes
  nothing; the targets that follow are not processed.
\<close>

lemma mkdir_rejection_without_toString:
  "trace (mkdir_main example_env
     ((example_cx False [''a'', ''c''])
        \<lparr>fileSystemManager := example_fsm \<lparr>fs_mkdir := \<lambda>fs p. (Some JsUndefined, fs)\<rparr>\<rparr>)
     (start example_fs))
   = [Ready, FsMkdir (Path_abs example_env ''/home'' ''a'')]"
  by code_simp

text \<open>
  C5, as the claim states it: with a non-empty target list and the help flag,
  \<open>mkdir\<close> writes its usage and closes Ok; no target is processed.
\<close>

theorem mkdir_help_with_targets_counterexample:
  "getArg_list (example_cx True [''a'', ''b'']) [] \<noteq> [] \<and>
   trace (mkdir_main example_env (example_cx True [''a'', ''b'']) (start example_fs))
     = [Ready, StdoutWrite mkdir_usage, CloseOk]"
  by (simp add: mkdir_main_def example_cx_def getArg_list_def trace_closeOk trace_stdout_write
      trace_emit trace_start)

text \<open>
  C5, amended: for every \<open>mkdir\<close> invocation with an empty target list or with the help
  flag, the usage text is written, \<open>mkdir\<close> is called on no target and the command
  closes Ok. For every \<open>mkdir\<close> invocation with a non-empty target list and without the
  help flag, in which no call of \<open>mkdir\<close> on the targets, taken in argument order, fails
  with \<^verbatim>\<open>undefined\<close> or \<^verbatim>\<open>null\<close> as its rejection value: \<open>mkdir\<close> is called on the
  targets one after the other in argument order, each call on the file system the one
  before has left, whether or not that one failed; right after a call that fails, a
  line naming the path is written; and the command closes last, with an error when at
  least one call failed and Ok otherwise.
\<close>

theorem mkdir_main_trace:
  "(getArg_list cx [] = [] \<or> arg_help cx \<longrightarrow>
      trace (mkdir_main E cx (start fs)) = [Ready, StdoutWrite mkdir_usage, CloseOk]) \<and>
   (getArg_list cx [] \<noteq> [] \<and> \<not> arg_help cx \<and>
    list_all toString_returns
      (mkdir_results (fileSystemManager cx) fs
         (map (Path_abs E (getPwd cx)) (getArg_list cx []))) \<longrightarrow>
      trace (mkdir_main E cx (start fs)) =
        (let paths = map (Path_abs E (getPwd cx)) (getArg_list cx []);
             results = mkdir_results (fileSystemManager cx) fs paths
         in [Ready] @ concat (map (mkdir_step E) (zip paths results)) @
            [if list_ex (\<lambda>r. r \<noteq> None) results
             then CloseError (Runtime ''Some directories could not be created'')
             else CloseOk]))"
proof (intro conjI impI)
  assume "getArg_list cx [] = [] \<or> arg_help cx"
  then show "trace (mkdir_main E cx (start fs)) = [Ready, StdoutWrite mkdir_usage, CloseOk]"
    by (auto simp add: mkdir_main_def Let_def trace_closeOk trace_stdout_write trace_emit
        trace_start)
next
  assume h: "getArg_list cx [] \<noteq> [] \<and> \<not> arg_help cx \<and>
    list_all toString_returns
      (mkdir_results (fileSystemManager cx) fs
         (map (Path_abs E (getPwd cx)) (getArg_list cx [])))"
  let ?w = "emit Ready (start fs)"
  let ?list = "getArg_list cx []"
  have w: "fsys ?w = fs" "trace ?w = [Ready]"
    by (simp_all add: fsys_emit fsys_start trace_emit trace_start)
  have "list_all toString_returns
      (mkdir_results (fileSystemManager cx) (fsys ?w) (map (Path_abs E (getPwd cx)) ?list))"
    using h by (simp add: w)
  from mkdirNext_returns [OF this, of False]
  have run: "fst (mkdirNext E cx (False, ?list, ?w)) = None"
    "fst (snd (mkdirNext E cx (False, ?list, ?w))) =
       list_ex (\<lambda>r. r \<noteq> None)
         (mkdir_results (fileSystemManager cx) fs (map (Path_abs E (getPwd cx)) ?list))"
    "trace (snd (snd (snd (mkdirNext E cx (False, ?list, ?w))))) =
       [Ready] @ concat (map (mkdir_step E)
         (zip (map (Path_abs E (getPwd cx)) ?list)
              (mkdir_results (fileSystemManager cx) fs (map (Path_abs E (getPwd cx)) ?list))))"
    by (simp_all add: w)
  obtain errors list' w' where st: "mkdirNext E cx (False, ?list, ?w) = (None, errors, list', w')"
    using run(1) by (cases "mkdirNext E cx (False, ?list, ?w)") auto
  show "trace (mkdir_main E cx (start fs)) =
        (let paths = map (Path_abs E (getPwd cx)) (getArg_list cx []);
             results = mkdir_results (fileSystemManager cx) fs paths
         in [Ready] @ concat (map (mkdir_step E) (zip paths results)) @
            [if list_ex (\<lambda>r. r \<noteq> None) results
             then CloseError (Runtime ''Some directories could not be created'')
             else CloseOk])"
    using h run(2,3)
    by (simp add: mkdir_main_def Let_def st trace_closeOk trace_closeError)
qed

theorem mkdir_main_trace_witness:
  "trace (mkdir_main example_env (example_cx True [''a'']) (start example_fs))
     = [Ready, StdoutWrite mkdir_usage, CloseOk] \<and>
   trace (mkdir_main example_env (example_cx False [''a'', ''b'', ''c'']) (start example_fs))
     = [Ready,
        FsMkdir (Path_abs example_env ''/home'' ''a''),
        FsMkdir (Path_abs example_env ''/home'' ''b''),
        StdoutWrite (''mkdir: b: AxiomError'' @ newline),
        FsMkdir (Path_abs example_env ''/home'' ''c''),
        CloseError (Runtime ''Some directories could not be created'')]"
proof -
  let ?usage = "example_cx True [''a'']"
  let ?cx = "example_cx False [''a'', ''b'', ''c'']"
  have u: "getArg_list ?usage [] = [] \<or> arg_help ?usage"
    by code_simp
  have h: "getArg_list ?cx [] \<noteq> [] \<and> \<not> arg_help ?cx \<and>
    list_all toString_returns
      (mkdir_results (fileSystemManager ?cx) example_fs
         (map (Path_abs example_env (getPwd ?cx)) (getArg_list ?cx [])))"
    by code_simp
  have v: "(let paths = map (Path_abs example_env (getPwd ?cx)) (getArg_list ?cx []);
                results = mkdir_results (fileSystemManager ?cx) example_fs paths
            in [Ready] @ concat (map (mkdir_step example_env) (zip paths results)) @
               [if list_ex (\<lambda>r. r \<noteq> None) results
                then CloseError (Runtime ''Some directories could not be created'')
                else CloseOk])
     = [Ready,
        FsMkdir (Path_abs example_env ''/home'' ''a''),
        FsMkdir (Path_abs example_env ''/home'' ''b''),
        StdoutWrite (''mkdir: b: AxiomError'' @ newline),
        FsMkdir (Path_abs example_env ''/home'' ''c''),
        CloseError (Runtime ''Some directories could not be created'')]"
    by code_simp
  from mkdir_main_trace [of ?usage example_env example_fs] u
  have t1: "trace (mkdir_main example_env ?usage (start example_fs))
     = [Ready, StdoutWrite mkdir_usage, CloseOk]"
    by blast
  from mkdir_main_trace [of ?cx example_env example_fs] h
  have "trace (mkdir_main example_env ?cx (start example_fs)) =
      (let paths = map (Path_abs example_env (getPwd ?cx)) (getArg_list ?cx []);
                results = mkdir_results (fileSystemManager ?cx) example_fs paths
            in [Ready] @ concat (map (mkdir_step example_env) (zip paths results)) @
               [if list_ex (\<lambda>r. r \<noteq> None) results
                then CloseError (Runtime ''Some directories could not be created'')
                else CloseOk])"
    by blast
  from this v have t2: "trace (mkdir_main example_env ?cx (start example_fs))
     = [Ready,
        FsMkdir (Path_abs example_env ''/home'' ''a''),
        FsMkdir (Path_abs example_env ''/home'' ''b''),
        StdoutWrite (''mkdir: b: AxiomError'' @ newline),
        FsMkdir (Path_abs example_env ''/home'' ''c''),
        CloseError (Runtime ''Some directories could not be created'')]"
    by (rule trans)
  from t1 t2 show ?thesis
    by blast
qed

section \<open>ls: the text written for a directory and for a file\<close>

lemma call_list_eq:
  "call_list cx w p =
     (fst (fs_list (fileSystemManager cx) (fsys w) p),
      \<lparr>fsys = snd (fs_list (fileSystemManager cx) (fsys w) p), trace = trace w @ [FsList p]\<rparr>)"
  by (simp add: call_list_def emit_def split: prod.split)

lemma call_stat_eq:
  "call_stat cx w p =
     (fst (fs_stat (fileSystemManager cx) (fsys w) p),
      \<lparr>fsys = snd (fs_stat (fileSystemManager cx) (fsys w) p), trace = trace w @ [FsStat p]\<rparr>)"
  by (simp add: call_stat_def emit_def split: prod.split)

lemma digit_not_newline: "k < 16 \<Longrightarrow> digit k \<noteq> CHR 0x0A"
proof -
  assume "k < 16"
  then have "digit k \<in> set ''0123456789abcdef''"
    unfolding digit_def by (intro nth_mem) simp
  then show ?thesis by auto
qed

lemma quote_char_no_newline: "CHR 0x0A \<notin> set (quote_char c)"
proof -
  have "(of_char c :: nat) < 32 \<Longrightarrow> (of_char c :: nat) div 16 < 16"
    by simp
  then show ?thesis
    using digit_not_newline [of "of_char c div 16"] digit_not_newline [of "of_char c mod 16"]
    by (auto simp add: quote_char_def)
qed

lemma quote_no_newline: "CHR 0x0A \<notin> set (quote s)"
  using quote_char_no_newline by (auto simp add: quote_def)

lemma show_nat_no_newline: "CHR 0x0A \<notin> set (show_nat n)"
proof (induction n rule: show_nat.induct)
  case (1 n)
  have d: "digit (n mod 10) \<noteq> CHR 0x0A"
    by (rule digit_not_newline) arith
  show ?case
  proof (cases "n < 10")
    case True
    then have "digit n \<noteq> CHR 0x0A"
      by (intro digit_not_newline) arith
    with True show ?thesis
      by (auto simp add: show_nat.simps [of n])
  next
    case False
    with 1 d show ?thesis
      by (auto simp add: show_nat.simps [of n])
  qed
qed

lemma listing_count_no_newline: "CHR 0x0A \<notin> set (listing_count n)"
  using show_nat_no_newline [of n] by (simp add: listing_count_def)

lemma takeWhile_first_line:
  "CHR 0x0A \<notin> set xs \<Longrightarrow> takeWhile (\<lambda>c. c \<noteq> CHR 0x0A) (xs @ newline @ ys) = xs"
  by (induction xs) (auto simp add: newline_def)

lemma if_nonempty_concat:
  "(if length xs > 0 then a @ concat (map f xs) else a) = a @ concat (map f xs)"
  by (cases xs) simp_all

lemma listing_eq:
  "listing E p listResult =
     (''Listing of '' @ quote (spec p) @ '', '' @
        listing_count (length (sort (remdups (map fst listResult))))) @ newline @
     concat (map (\<lambda>name. listing_entry E (listing_longest (sort (remdups (map fst listResult))))
                     name (the (map_of listResult name)))
               (sort (remdups (map fst listResult))))"
  unfolding listing_def Let_def by (subst if_nonempty_concat) simp

lemma length_names: "length (sort (remdups (map fst listResult))) = card (fst ` set listResult)"
  by (simp add: length_remdups_card_conv)

text \<open>
  C8: when \<open>list\<close> succeeds on the target, \<open>ls\<close> writes one text for it. Its first
  line is \<open>Listing of\<close>, the quoted spec of the path, a comma and \<open>empty.\<close> for no
  entry, \<open>1 entry:\<close> for one and \<open>N entries:\<close> for \<open>N\<close> entries above one; after
  the line come as many entry lines as the directory has entries, none for an empty one.
\<close>

theorem ls_listing_header:
  assumes "p = Path_abs E (getPwd cx) pathSpec"
    and "fst (fs_list (fileSystemManager cx) (fsys w) p) = Inr listResult"
    and "n = card (fst ` set listResult)"
  shows "trace (snd (listPathSpec E cx w pathSpec)) =
           trace w @ [FsList p, StdoutWrite (listing E p listResult)] \<and>
         takeWhile (\<lambda>c. c \<noteq> CHR 0x0A) (listing E p listResult) =
           ''Listing of '' @ quote (spec p) @ '', '' @
           (if n = 0 then ''empty.'' else if n = 1 then ''1 entry:''
            else show_nat n @ '' entries:'') \<and>
         listing E p listResult =
           takeWhile (\<lambda>c. c \<noteq> CHR 0x0A) (listing E p listResult) @ newline @
           concat (map (\<lambda>name. listing_entry E (listing_longest (sort (remdups (map fst listResult))))
                           name (the (map_of listResult name)))
                     (sort (remdups (map fst listResult)))) \<and>
         length (sort (remdups (map fst listResult))) = n \<and>
         (n = 0 \<longrightarrow> listing E p listResult =
                      ''Listing of '' @ quote (spec p) @ '', empty.'' @ newline)"
proof -
  let ?names = "sort (remdups (map fst listResult))"
  let ?header = "''Listing of '' @ quote (spec p) @ '', '' @
           (if n = 0 then ''empty.'' else if n = 1 then ''1 entry:''
            else show_nat n @ '' entries:'')"
  have len: "length ?names = n"
    using assms(3) by (simp only: length_names)
  have header: "''Listing of '' @ quote (spec p) @ '', '' @ listing_count (length ?names) = ?header"
    by (simp only: len listing_count_def)
  have nonl: "CHR 0x0A \<notin> set (''Listing of '' @ quote (spec p) @ '', '' @ listing_count (length ?names))"
    using quote_no_newline [of "spec p"] listing_count_no_newline [of "length ?names"]
    by simp
  have "takeWhile (\<lambda>c. c \<noteq> CHR 0x0A) (listing E p listResult) =
          ''Listing of '' @ quote (spec p) @ '', '' @ listing_count (length ?names)"
    by (subst listing_eq) (rule takeWhile_first_line [OF nonl])
  then have first: "takeWhile (\<lambda>c. c \<noteq> CHR 0x0A) (listing E p listResult) = ?header"
    by (simp only: header)
  have tr: "trace (snd (listPathSpec E cx w pathSpec)) =
           trace w @ [FsList p, StdoutWrite (listing E p listResult)]"
    using assms(1,2)
    by (simp add: listPathSpec_def Let_def call_list_eq trace_stdout_write)
  have le: "listing E p listResult =
           ?header @ newline @
           concat (map (\<lambda>name. listing_entry E (listing_longest ?names)
                           name (the (map_of listResult name))) ?names)"
    using listing_eq [of E p listResult] by (simp only: header append_assoc)
  have rest: "listing E p listResult =
           takeWhile (\<lambda>c. c \<noteq> CHR 0x0A) (listing E p listResult) @ newline @
           concat (map (\<lambda>name. listing_entry E (listing_longest ?names)
                           name (the (map_of listResult name))) ?names)"
    by (subst first) (rule le)
  have empty: "n = 0 \<longrightarrow> listing E p listResult =
                      ''Listing of '' @ quote (spec p) @ '', empty.'' @ newline"
  proof
    assume n0: "n = 0"
    with len have names: "?names = []" by simp
    from le show "listing E p listResult = ''Listing of '' @ quote (spec p) @ '', empty.'' @ newline"
      by (simp add: names n0)
  qed
  from tr first rest len empty show ?thesis
    by blast
qed

theorem ls_listing_header_witness:
  \<open>trace (snd (listPathSpec example_env (example_cx False [''docs''])
                 (start example_fs) ''docs'')) =
     [FsList (Path_abs example_env ''/home'' ''docs''),
      StdoutWrite (listing example_env (Path_abs example_env ''/home'' ''docs'')
         [(''notes'', example_stat), (''bin'', \<lparr>mode = 8, mtime = None, props = []\<rparr>)])] \<and>
   listing example_env (Path_abs example_env ''/home'' ''docs'')
         [(''notes'', example_stat), (''bin'', \<lparr>mode = 8, mtime = None, props = []\<rparr>)] =
     ''Listing of "/home/docs", 2 entries:'' @ newline @
     ''bin/     mode: "8"'' @ newline @
     ''notes    mode: "6", mtime: "2023-11-02 12:00:00 AM", size: 12'' @ newline \<and>
   takeWhile (\<lambda>c. c \<noteq> CHR 0x0A)
       (listing example_env (Path_abs example_env ''/home'' ''docs'')
         [(''notes'', example_stat), (''bin'', \<lparr>mode = 8, mtime = None, props = []\<rparr>)]) =
     ''Listing of "/home/docs", 2 entries:''\<close>
proof -
  let ?cx = "example_cx False [''docs'']"
  let ?p = "Path_abs example_env ''/home'' ''docs''"
  let ?lr = "[(''notes'', example_stat), (''bin'', \<lparr>mode = 8, mtime = None, props = []\<rparr>)]"
  have p: "?p = Path_abs example_env (getPwd ?cx) ''docs''"
    by (simp add: example_cx_def)
  have ok: "fst (fs_list (fileSystemManager ?cx) (fsys (start example_fs)) ?p) = Inr ?lr"
    by code_simp
  have n: "(2::nat) = card (fst ` set ?lr)"
    by code_simp
  have v: \<open>listing example_env ?p ?lr =
     ''Listing of "/home/docs", 2 entries:'' @ newline @
     ''bin/     mode: "8"'' @ newline @
     ''notes    mode: "6", mtime: "2023-11-02 12:00:00 AM", size: 12'' @ newline\<close>
    by code_simp
  have s: \<open>''Listing of '' @ quote (spec ?p) @ '', '' @
           (if (2::nat) = 0 then ''empty.'' else if (2::nat) = 1 then ''1 entry:''
            else show_nat 2 @ '' entries:'') = ''Listing of "/home/docs", 2 entries:''\<close>
    by code_simp
  have t: "trace (start example_fs) = []"
    by (rule trace_start)
  note hdr = ls_listing_header [OF p ok n]
  from hdr have "trace (snd (listPathSpec example_env ?cx (start example_fs) ''docs'')) =
      trace (start example_fs) @ [FsList ?p, StdoutWrite (listing example_env ?p ?lr)]"
    by (rule conjunct1)
  then have a: "trace (snd (listPathSpec example_env ?cx (start example_fs) ''docs'')) =
      [FsList ?p, StdoutWrite (listing example_env ?p ?lr)]"
    by (simp only: t append_Nil)
  from hdr have "takeWhile (\<lambda>c. c \<noteq> CHR 0x0A) (listing example_env ?p ?lr) =
      ''Listing of '' @ quote (spec ?p) @ '', '' @
           (if (2::nat) = 0 then ''empty.'' else if (2::nat) = 1 then ''1 entry:''
            else show_nat 2 @ '' entries:'')"
    by blast
  from this s have b: \<open>takeWhile (\<lambda>c. c \<noteq> CHR 0x0A) (listing example_env ?p ?lr) =
      ''Listing of "/home/docs", 2 entries:''\<close>
    by (rule trans)
  from a v b show ?thesis
    by blast
qed

text \<open>
  C9, as the claim states it: the line \<open>ls\<close> writes for the file \<open>notes\<close> has two
  spaces between the name and the formatted stat; the entry line of a directory listing
  for an entry of the same name and stat has the marker column and three more spaces.
\<close>

theorem ls_file_line_counterexample:
  \<open>trace (ls_main example_env (example_cx False [''notes'']) (start example_fs)) =
     [Ready,
      FsList (Path_abs example_env ''/home'' ''notes''),
      FsStat (Path_abs example_env ''/home'' ''notes''),
      StdoutWrite (''notes  mode: "6", mtime: "2023-11-02 12:00:00 AM", size: 12'' @ newline),
      CloseOk] \<and>
   trace (ls_main example_env (example_cx False [''one'']) (start example_fs)) =
     [Ready,
      FsList (Path_abs example_env ''/home'' ''one''),
      StdoutWrite (''Listing of "/home/one", 1 entry:'' @ newline @
                   ''notes    mode: "6", mtime: "2023-11-02 12:00:00 AM", size: 12'' @ newline),
      CloseOk] \<and>
   ''notes  mode: "6", mtime: "2023-11-02 12:00:00 AM", size: 12'' @ newline \<noteq>
   ''notes    mode: "6", mtime: "2023-11-02 12:00:00 AM", size: 12'' @ newline\<close>
  by code_simp

text \<open>
  C9, amended: for every \<open>ls\<close> of a path naming a regular file (\<open>list\<close> fails with
  TypeMismatch and the fallback \<open>stat\<close> succeeds), the single line written is the
  base name of the path, two spaces, the formatted stat and a newline. It is not the
  format of an entry line of a directory listing: whatever the padding, the entry line
  for the same name and stat (name, directory marker, padding, three spaces, formatted
  stat) is at least two characters longer.
\<close>

theorem ls_file_line:
  assumes "p = Path_abs E (getPwd cx) pathSpec"
    and "fst (fs_list (fileSystemManager cx) (fsys w) p) = Inl v"
    and "TypeMismatch_test v"
    and "fst (fs_stat (fileSystemManager cx) (snd (fs_list (fileSystemManager cx) (fsys w) p)) p)
           = Inr stat"
  shows "fst (listPathSpec E cx w pathSpec) = Fulfilled \<and>
         trace (snd (listPathSpec E cx w pathSpec)) =
           trace w @ [FsList p, FsStat p,
                      StdoutWrite (getBaseName p @ ''  '' @ formatStat E stat @ newline)] \<and>
         length (getBaseName p @ ''  '' @ formatStat E stat @ newline) + 2
           \<le> length (listing_entry E longest (getBaseName p) stat) \<and>
         listing_entry E longest (getBaseName p) stat
           \<noteq> getBaseName p @ ''  '' @ formatStat E stat @ newline"
proof -
  have run: "listPathSpec E cx w pathSpec =
      (Fulfilled,
       stdout_write (getBaseName p @ ''  '' @ formatStat E stat @ newline)
         (snd (call_stat cx (snd (call_list cx w p)) p)))"
    using assms by (simp add: listPathSpec_def Let_def call_list_eq call_stat_eq)
  have tr: "trace (snd (listPathSpec E cx w pathSpec)) =
           trace w @ [FsList p, FsStat p,
                      StdoutWrite (getBaseName p @ ''  '' @ formatStat E stat @ newline)]"
    by (simp add: run trace_stdout_write call_list_eq call_stat_eq)
  have len: "length (getBaseName p @ ''  '' @ formatStat E stat @ newline) + 2
           \<le> length (listing_entry E longest (getBaseName p) stat)"
    by (simp add: listing_entry_def)
  then have "length (listing_entry E longest (getBaseName p) stat)
           \<noteq> length (getBaseName p @ ''  '' @ formatStat E stat @ newline)"
    by arith
  then have ne: "listing_entry E longest (getBaseName p) stat
           \<noteq> getBaseName p @ ''  '' @ formatStat E stat @ newline"
    by (rule contrapos_nn) (erule arg_cong)
  from run tr len ne show ?thesis
    by simp
qed

theorem ls_file_line_witness:
  \<open>trace (snd (listPathSpec example_env (example_cx False [''notes''])
                 (start example_fs) ''notes'')) =
     [FsList (Path_abs example_env ''/home'' ''notes''),
      FsStat (Path_abs example_env ''/home'' ''notes''),
      StdoutWrite (getBaseName (Path_abs example_env ''/home'' ''notes'') @ ''  '' @
                   formatStat example_env example_stat @ newline)] \<and>
   getBaseName (Path_abs example_env ''/home'' ''notes'') @ ''  '' @
     formatStat example_env example_stat @ newline =
     ''notes  mode: "6", mtime: "2023-11-02 12:00:00 AM", size: 12'' @ newline\<close>
proof -
  let ?cx = "example_cx False [''notes'']"
  let ?p = "Path_abs example_env ''/home'' ''notes''"
  have p: "?p = Path_abs example_env (getPwd ?cx) ''notes''"
    by (simp add: example_cx_def)
  have l: "fst (fs_list (fileSystemManager ?cx) (fsys (start example_fs)) ?p) = Inl TypeMismatch"
    by code_simp
  have t: "TypeMismatch_test TypeMismatch"
    by simp
  have s: "fst (fs_stat (fileSystemManager ?cx)
                 (snd (fs_list (fileSystemManager ?cx) (fsys (start example_fs)) ?p)) ?p)
             = Inr example_stat"
    by code_simp
  have v: \<open>getBaseName ?p @ ''  '' @ formatStat example_env example_stat @ newline =
     ''notes  mode: "6", mtime: "2023-11-02 12:00:00 AM", size: 12'' @ newline\<close>
    by code_simp
  have e: "trace (start example_fs) = []"
    by (rule trace_start)
  from ls_file_line [OF p l t s, of 0]
  have "trace (snd (listPathSpec example_env ?cx (start example_fs) ''notes'')) =
      trace (start example_fs) @
      [FsList ?p, FsStat ?p,
       StdoutWrite (getBaseName ?p @ ''  '' @ formatStat example_env example_stat @ newline)]"
    by blast
  then have a: "trace (snd (listPathSpec example_env ?cx (start example_fs) ''notes'')) =
      [FsList ?p, FsStat ?p,
       StdoutWrite (getBaseName ?p @ ''  '' @ formatStat example_env example_stat @ newline)]"
    by (simp only: e append_Nil)
  from a v show ?thesis
    by blast
qed

section \<open>ls: a target that fails\<close>

lemma listPathSpec_hard_failure:
  assumes "hard_failure cx w (Path_abs E (getPwd cx) pathSpec) = Some (calls, e)"
  shows "fst (listPathSpec E cx w pathSpec) = Rejected"
    and "trace (snd (listPathSpec E cx w pathSpec)) = trace w @ calls @ [CloseError e]"
  using assms
  by (auto simp add: hard_failure_def listPathSpec_def Let_def call_list_eq call_stat_eq
      closeError_def trace_emit split: prod.splits sum.splits if_splits)

lemma listPathSpec_no_failure:
  assumes "hard_failure cx w (Path_abs E (getPwd cx) pathSpec) = None"
  shows "fst (listPathSpec E cx w pathSpec) = Fulfilled"
    and "closes (trace (snd (listPathSpec E cx w pathSpec))) = closes (trace w)"
  using assms
  by (auto simp add: hard_failure_def listPathSpec_def Let_def call_list_eq call_stat_eq
      closes_def trace_stdout_write split: prod.splits sum.splits if_splits)





section \<open>import: cancellation\<close>

lemma closes_append: "closes (xs @ ys) = closes xs + closes ys"
  by (simp add: closes_def)

lemma closes_emit: "closes (trace (emit ev w)) = closes (trace w) + (if is_close ev then 1 else 0)"
  by (simp add: trace_emit closes_def)

lemma destroy_full:
  "body c = [DummyFocusInput, FileInput] \<Longrightarrow>
     destroy c =
       Inr (c\<lparr>body := [],
              cmd_world := emit (ElementFocus OriginalFocusElement)
                 (emit (RemoveChild DummyFocusInput) (emit (RemoveChild FileInput) (cmd_world c)))\<rparr>)"
  by (simp add: destroy_def removeChild_def cmd_emit_def)

lemma destroy_empty: "body c = [] \<Longrightarrow> destroy c = Inl c"
  by (simp add: destroy_def removeChild_def)

lemma foldl_FocusEvent:
  "foldl (handle_event E cx) c (replicate n FocusEvent) = c\<lparr>timers := timers c + n\<rparr>"
  by (induction n arbitrary: c) (simp_all add: handleFileCancel_def)

lemma import_main_waits:
  assumes "length (getArg_list cx []) \<le> 1" and "\<not> arg_help cx"
  shows "\<exists>c. import_main E cx w0 = Inr c \<and> body c = [DummyFocusInput, FileInput] \<and>
             \<not> filesChosen c \<and> timers c = 0 \<and>
             trace (cmd_world c) =
               trace w0 @ [Ready, AppendChild DummyFocusInput, ElementFocus DummyFocusInput,
                           AppendChild FileInput, ElementClick FileInput]"
  using assms
  by (simp add: import_main_def Let_def ImportCommand_import_def appendChild_def cmd_emit_def
      trace_emit)

text \<open>
  C7: in an \<open>import\<close> that waits for the browser (at most one positional argument, no
  help flag), when the dummy input regains focus, any number of times, and a timer then
  fires with no \<open>change\<close> event before it, the command removes the file input and the
  dummy input from the document, restores the focus, and then closes with the error
  \<open>Missing\<close> for the file selection; nothing else follows.
\<close>

theorem import_cancel:
  assumes "length (getArg_list cx []) \<le> 1" and "\<not> arg_help cx"
  shows "trace (import_run E cx (start fs) (replicate (Suc n) FocusEvent @ [Timeout])) =
           [Ready, AppendChild DummyFocusInput, ElementFocus DummyFocusInput,
            AppendChild FileInput, ElementClick FileInput,
            RemoveChild FileInput, RemoveChild DummyFocusInput,
            ElementFocus OriginalFocusElement,
            CloseError (Missing ''file selection'')]"
proof -
  from import_main_waits [OF assms, of E "start fs"]
  obtain c where c: "import_main E cx (start fs) = Inr c"
    and b: "body c = [DummyFocusInput, FileInput]"
    and f: "\<not> filesChosen c"
    and t: "trace (cmd_world c) =
               trace (start fs) @ [Ready, AppendChild DummyFocusInput, ElementFocus DummyFocusInput,
                           AppendChild FileInput, ElementClick FileInput]"
    by blast
  let ?c1 = "c\<lparr>timers := timers c + Suc n\<rparr>"
  have "foldl (handle_event E cx) c (replicate (Suc n) FocusEvent @ [Timeout]) =
          handle_event E cx ?c1 Timeout"
    by (simp only: foldl_append foldl_FocusEvent foldl_Cons foldl_Nil)
  also have "\<dots> = handleFileCancel_timeout cx (?c1\<lparr>timers := timers ?c1 - 1\<rparr>)"
    by simp
  finally have "trace (cmd_world (foldl (handle_event E cx) c
                  (replicate (Suc n) FocusEvent @ [Timeout]))) =
      trace (cmd_world c) @ [RemoveChild FileInput, RemoveChild DummyFocusInput,
            ElementFocus OriginalFocusElement, CloseError (Missing ''file selection'')]"
    using b f
    by (simp add: handleFileCancel_timeout_def destroy_full trace_closeError trace_emit)
  then show ?thesis
    by (simp add: import_run_def c t trace_start)
qed

theorem import_cancel_witness:
  "trace (import_run example_env (example_cx False [''b'']) (start example_fs)
            [FocusEvent, Timeout]) =
     [Ready, AppendChild DummyFocusInput, ElementFocus DummyFocusInput,
      AppendChild FileInput, ElementClick FileInput,
      RemoveChild FileInput, RemoveChild DummyFocusInput,
      ElementFocus OriginalFocusElement,
      CloseError (Missing ''file selection'')]"
proof -
  let ?cx = "example_cx False [''b'']"
  have a: "length (getArg_list ?cx []) \<le> 1"
    by code_simp
  have h: "\<not> arg_help ?cx"
    by code_simp
  have r: "replicate (Suc 0) FocusEvent @ [Timeout] = [FocusEvent, Timeout]"
    by simp
  from import_cancel [OF a h, of example_env example_fs 0] show ?thesis
    by (simp only: r)
qed

section \<open>Every command: the number of closes\<close>

lemma closes_call_stat: "closes (trace (snd (call_stat cx w p))) = closes (trace w)"
  by (simp add: call_stat_eq closes_def)

lemma closes_call_mkdir: "closes (trace (snd (call_mkdir cx w p))) = closes (trace w)"
  by (simp add: call_mkdir_eq closes_def)

lemma closes_call_writeFile: "closes (trace (snd (call_writeFile cx w p s))) = closes (trace w)"
  by (simp add: call_writeFile_def closes_emit split: prod.split)

lemma closes_mkdirParent: "closes (trace (snd (mkdirParent cx w p))) = closes (trace w)"
proof (induction cx w p rule: mkdirParent.induct)
  case (1 cx w s os b)
  show ?case by simp
next
  case (2 cx w s os b parentPath)
  obtain r w1 where m: "mkdirParent cx w parentPath = (r, w1)"
    by (cases "mkdirParent cx w parentPath")
  with 2 have w1: "closes (trace w1) = closes (trace w)"
    by simp
  show ?case
    using closes_call_mkdir [of cx w1 "Path s os b (Some parentPath)"]
    by (auto simp add: m w1 Let_def split: option.split prod.split)
qed

lemma closes_onFileLoad: "closes (trace (snd (onFileLoad cx w p s))) = closes (trace w)"
proof (cases "getParentPath p")
  case None
  then show ?thesis by (simp add: onFileLoad_def)
next
  case (Some parentDirectory)
  obtain r w1 where st: "call_stat cx w parentDirectory = (r, w1)"
    by (cases "call_stat cx w parentDirectory")
  have w1: "closes (trace w1) = closes (trace w)"
    using closes_call_stat [of cx w parentDirectory] by (simp add: st)
  obtain r1 w2 where
    mk: "(case r of Inr result \<Rightarrow> (None, w1)
          | Inl e \<Rightarrow> if NotFound_test e then mkdirParent cx w1 parentDirectory else (Some e, w1))
         = (r1, w2)"
    by (cases "(case r of Inr result \<Rightarrow> (None, w1)
          | Inl e \<Rightarrow> if NotFound_test e then mkdirParent cx w1 parentDirectory else (Some e, w1))")
  have w2: "closes (trace w2) = closes (trace w1)"
    using mk closes_mkdirParent [of cx w1 parentDirectory]
    by (auto split: sum.splits if_splits)
  show ?thesis
    using closes_call_writeFile [of cx w2 p s]
    by (auto simp add: onFileLoad_def Some st mk w1 w2 Let_def split: option.split prod.split)
qed

lemma closes_onFileLoad_eq:
  "onFileLoad cx w p s = (v, w1) \<Longrightarrow> closes (trace w1) = closes (trace w)"
  using closes_onFileLoad [of cx w p s] by simp

lemma closes_copyFiles: "closes (trace (snd (copyFiles E cx c w files))) = closes (trace w)"
proof (induction files arbitrary: w)
  case Nil
  show ?case by simp
next
  case (Cons f files)
  obtain v w1 where
    one: "(case load_result f of None \<Rightarrow> (None, w)
           | Some fileContent \<Rightarrow> onFileLoad cx w (file_path E c f) fileContent) = (v, w1)"
    by (cases "(case load_result f of None \<Rightarrow> (None, w)
           | Some fileContent \<Rightarrow> onFileLoad cx w (file_path E c f) fileContent)")
  have w1: "closes (trace w1) = closes (trace w)"
    using one by (auto split: option.splits dest: closes_onFileLoad_eq)
  show ?case
    using Cons.IH [of w1] by (simp add: one w1 split_beta)
qed

lemma file_path_filesChosen: "file_path E (c\<lparr>filesChosen := b\<rparr>) f = file_path E c f"
  by (simp add: file_path_def cong: option.case_cong)

lemma copyFiles_filesChosen:
  "copyFiles E cx (c\<lparr>filesChosen := b\<rparr>) w files = copyFiles E cx c w files"
  by (induction files arbitrary: w) (simp_all add: file_path_filesChosen cong: option.case_cong)

lemma handle_event_destroyed:
  assumes "body c = []"
  shows "body (handle_event E cx c ev) = [] \<and>
         closes (trace (cmd_world (handle_event E cx c ev))) = closes (trace (cmd_world c))"
proof (cases ev)
  case FocusEvent
  with assms show ?thesis
    by (simp add: handleFileCancel_def)
next
  case Timeout
  with assms show ?thesis
    by (simp add: handleFileCancel_timeout_def destroy_empty)
next
  case (ChangeEvent files)
  let ?c = "c\<lparr>filesChosen := True\<rparr>"
  let ?r = "copyFiles E cx ?c (cmd_world ?c) files"
  have b: "body (?c\<lparr>cmd_world := snd ?r\<rparr>) = []"
    using assms by simp
  have k: "closes (trace (snd ?r)) = closes (trace (cmd_world c))"
    by (simp add: closes_copyFiles)
  show ?thesis
    using assms k
    by (simp add: ChangeEvent handleFileSelect_def Let_def split_beta destroy_empty)
qed

lemma handle_event_full:
  assumes "body c = [DummyFocusInput, FileInput]"
  shows "(body (handle_event E cx c ev) = [DummyFocusInput, FileInput] \<and>
          closes (trace (cmd_world (handle_event E cx c ev))) = closes (trace (cmd_world c))) \<or>
         (body (handle_event E cx c ev) = [] \<and>
          closes (trace (cmd_world (handle_event E cx c ev))) = Suc (closes (trace (cmd_world c))))"
proof (cases ev)
  case FocusEvent
  with assms show ?thesis
    by (simp add: handleFileCancel_def)
next
  case Timeout
  with assms show ?thesis
    by (simp add: handleFileCancel_timeout_def destroy_full closeError_def closes_emit)
next
  case (ChangeEvent files)
  let ?c = "c\<lparr>filesChosen := True\<rparr>"
  let ?r = "copyFiles E cx ?c (cmd_world ?c) files"
  have b: "body (?c\<lparr>cmd_world := snd ?r\<rparr>) = [DummyFocusInput, FileInput]"
    using assms by simp
  have k: "closes (trace (snd ?r)) = closes (trace (cmd_world c))"
    by (simp add: closes_copyFiles)
  show ?thesis
    using assms k
    by (simp add: ChangeEvent handleFileSelect_def Let_def split_beta destroy_full
        closeError_def closeOk_def closes_emit)
qed

lemma foldl_destroyed:
  "body c = [] \<Longrightarrow>
     body (foldl (handle_event E cx) c evs) = [] \<and>
     closes (trace (cmd_world (foldl (handle_event E cx) c evs))) = closes (trace (cmd_world c))"
proof (induction evs arbitrary: c)
  case Nil
  then show ?case by simp
next
  case (Cons ev evs)
  from handle_event_destroyed [OF Cons.prems, of E cx ev] Cons.IH [of "handle_event E cx c ev"]
  show ?case by simp
qed

lemma foldl_full:
  "body c = [DummyFocusInput, FileInput] \<Longrightarrow>
     closes (trace (cmd_world (foldl (handle_event E cx) c evs))) = closes (trace (cmd_world c)) \<or>
     closes (trace (cmd_world (foldl (handle_event E cx) c evs))) = Suc (closes (trace (cmd_world c)))"
proof (induction evs arbitrary: c)
  case Nil
  then show ?case by simp
next
  case (Cons ev evs)
  from handle_event_full [OF Cons.prems, of E cx ev]
  show ?case
  proof
    assume "body (handle_event E cx c ev) = [DummyFocusInput, FileInput] \<and>
          closes (trace (cmd_world (handle_event E cx c ev))) = closes (trace (cmd_world c))"
    with Cons.IH [of "handle_event E cx c ev"] show ?thesis
      by auto
  next
    assume "body (handle_event E cx c ev) = [] \<and>
          closes (trace (cmd_world (handle_event E cx c ev))) = Suc (closes (trace (cmd_world c)))"
    with foldl_destroyed [of "handle_event E cx c ev" E cx evs] show ?thesis
      by simp
  qed
qed

lemma import_main_usage:
  assumes "length (getArg_list cx []) > 1 \<or> arg_help cx"
  shows "import_run E cx (start fs) evs = closeOk (stdout_write import_usage (emit Ready (start fs)))"
  using assms by (auto simp add: import_run_def import_main_def Let_def)

lemma closes_import_usage:
  "closes (trace (closeOk (stdout_write import_usage (emit Ready (start fs))))) = 1"
  by (simp add: trace_closeOk trace_stdout_write trace_emit trace_start closes_def)

lemma import_run_cases:
  obtains (usage) "length (getArg_list cx []) > 1 \<or> arg_help cx"
      "closes (trace (import_run E cx (start fs) evs)) = 1"
    | (waits) c where "import_main E cx (start fs) = Inr c"
      "body c = [DummyFocusInput, FileInput]" "\<not> filesChosen c" "timers c = 0"
      "closes (trace (cmd_world c)) = 0"
      "import_run E cx (start fs) evs = cmd_world (foldl (handle_event E cx) c evs)"
proof (cases "length (getArg_list cx []) > 1 \<or> arg_help cx")
  case True
  then show ?thesis
    by (intro usage) (simp_all only: import_main_usage closes_import_usage)
next
  case False
  then have a: "length (getArg_list cx []) \<le> 1" and h: "\<not> arg_help cx"
    by auto
  from import_main_waits [OF a h, of E "start fs"]
  obtain c where c: "import_main E cx (start fs) = Inr c"
    "body c = [DummyFocusInput, FileInput]" "\<not> filesChosen c" "timers c = 0"
    and t: "trace (cmd_world c) =
               trace (start fs) @ [Ready, AppendChild DummyFocusInput, ElementFocus DummyFocusInput,
                           AppendChild FileInput, ElementClick FileInput]"
    by blast
  from t have k: "closes (trace (cmd_world c)) = 0"
    by (simp add: trace_start closes_def)
  have r: "import_run E cx (start fs) evs = cmd_world (foldl (handle_event E cx) c evs)"
    by (simp add: import_run_def c(1))
  from c k r show ?thesis
    by (rule waits)
qed

lemma import_closes_le: "closes (trace (import_run E cx (start fs) evs)) \<le> 1"
proof (cases rule: import_run_cases [of cx E fs evs])
  case usage
  then show ?thesis by simp
next
  case (waits c)
  from foldl_full [OF waits(2), of E cx evs] waits(5,6) show ?thesis
    by auto
qed

lemma import_closes_cancel:
  "closes (trace (import_run E cx (start fs) (replicate (Suc n) FocusEvent @ Timeout # evs))) = 1"
proof (cases rule: import_run_cases [of cx E fs "replicate (Suc n) FocusEvent @ Timeout # evs"])
  case usage
  then show ?thesis by simp
next
  case (waits c)
  let ?c1 = "c\<lparr>timers := timers c + Suc n\<rparr>"
  let ?c2 = "handle_event E cx ?c1 Timeout"
  have run: "foldl (handle_event E cx) c (replicate (Suc n) FocusEvent @ Timeout # evs) =
      foldl (handle_event E cx) ?c2 evs"
    by (simp only: foldl_append foldl_FocusEvent foldl_Cons)
  have "body ?c2 = [] \<and> closes (trace (cmd_world ?c2)) = 1"
    using waits(2,3,5)
    by (simp add: handleFileCancel_timeout_def destroy_full closeError_def closes_emit)
  with foldl_destroyed [of ?c2 E cx evs] waits(6) run show ?thesis
    by simp
qed

lemma copyFiles_timers:
  "copyFiles E cx (c\<lparr>timers := n\<rparr>) w files = copyFiles E cx c w files"
  by (induction files arbitrary: w)
    (simp_all add: file_path_def cong: option.case_cong)

lemma import_closes_select:
  assumes "case import_main E cx (start fs) of
             Inl w \<Rightarrow> True
           | Inr c \<Rightarrow> list_all (\<lambda>v. v \<noteq> None) (fst (copyFiles E cx c (cmd_world c) files))"
  shows "closes (trace (import_run E cx (start fs)
                   (replicate n FocusEvent @ ChangeEvent files # evs))) = 1"
proof (cases rule: import_run_cases [of cx E fs "replicate n FocusEvent @ ChangeEvent files # evs"])
  case usage
  then show ?thesis by simp
next
  case (waits c)
  let ?d = "c\<lparr>timers := timers c + n\<rparr>"
  let ?c = "?d\<lparr>filesChosen := True\<rparr>"
  let ?r = "copyFiles E cx ?c (cmd_world ?c) files"
  let ?c1 = "handle_event E cx ?d (ChangeEvent files)"
  have run: "foldl (handle_event E cx) c (replicate n FocusEvent @ ChangeEvent files # evs) =
      foldl (handle_event E cx) ?c1 evs"
    by (simp only: foldl_append foldl_FocusEvent foldl_Cons)
  have same: "?r = copyFiles E cx c (cmd_world c) files"
    by (simp add: copyFiles_filesChosen copyFiles_timers)
  have all: "list_all (\<lambda>v. v \<noteq> None) (fst ?r)"
    using assms waits(1) by (simp only: same) simp
  have k: "closes (trace (snd ?r)) = 0"
    using waits(5) by (simp only: same closes_copyFiles)
  have "body ?c1 = [] \<and> closes (trace (cmd_world ?c1)) = 1"
    using all k waits(2)
    by (simp add: handleFileSelect_def Let_def split_beta destroy_full
        closeError_def closeOk_def closes_emit)
  with foldl_destroyed [of ?c1 E cx evs] waits(6) run show ?thesis
    by simp
qed

lemma closes_Nil: "closes [] = 0"
  by (simp add: closes_def)

lemma closes_Cons: "closes (ev # tr) = (if is_close ev then 1 else 0) + closes tr"
  by (simp add: closes_def)

lemma closes_mkdir_step: "closes (mkdir_step E pr) = 0"
  by (simp add: mkdir_step_def closes_Cons closes_Nil split: option.split)

lemma closes_mkdir_steps: "closes (concat (map (mkdir_step E) prs)) = 0"
  by (induction prs) (simp_all add: closes_Nil closes_append closes_mkdir_step)

lemma mkdir_closes:
  assumes "list_all toString_returns
      (mkdir_results (fileSystemManager cx) fs
         (map (Path_abs E (getPwd cx)) (getArg_list cx [])))"
  shows "closes (trace (mkdir_main E cx (start fs))) = 1"
proof (cases "length (getArg_list cx []) = 0 \<or> arg_help cx")
  case True
  then show ?thesis
    by (auto simp add: mkdir_main_def Let_def trace_closeOk trace_stdout_write trace_emit
        trace_start closes_def)
next
  case False
  let ?w = "emit Ready (start fs)"
  let ?list = "getArg_list cx []"
  have w: "fsys ?w = fs" "trace ?w = [Ready]"
    by (simp_all add: fsys_emit fsys_start trace_emit trace_start)
  have "list_all toString_returns
      (mkdir_results (fileSystemManager cx) (fsys ?w) (map (Path_abs E (getPwd cx)) ?list))"
    using assms by (simp add: w)
  from mkdirNext_returns [OF this, of False]
  have run: "fst (mkdirNext E cx (False, ?list, ?w)) = None"
    "closes (trace (snd (snd (snd (mkdirNext E cx (False, ?list, ?w)))))) = 0"
    by (simp_all add: w closes_append closes_mkdir_steps closes_Cons closes_Nil)
  obtain errors list' w' where st: "mkdirNext E cx (False, ?list, ?w) = (None, errors, list', w')"
    using run(1) by (cases "mkdirNext E cx (False, ?list, ?w)") auto
  show ?thesis
    using False run(2)
    by (simp add: mkdir_main_def Let_def st trace_closeOk trace_closeError closes_append
        closes_Cons closes_Nil)
qed

lemma mv_closes: "closes (trace (mv_main E cx (start fs))) = 1"
  by (simp add: mv_main_def Let_def call_move_eq trace_closeOk trace_closeError
      trace_stdout_write trace_emit trace_start closes_def split: option.split)

lemma hard_failure_calls:
  "hard_failure cx w p = Some (calls, e) \<Longrightarrow> closes calls = 0"
  by (auto simp add: hard_failure_def closes_def split: prod.splits sum.splits if_splits)

lemma listNext_closes:
  "closes (trace (listNext E cx w pathList)) = Suc (closes (trace w))"
proof (induction pathList arbitrary: w)
  case Nil
  show ?case
    by (simp add: trace_closeOk closes_def)
next
  case (Cons pathSpec pathList)
  show ?case
  proof (cases "hard_failure cx w (Path_abs E (getPwd cx) pathSpec)")
    case None
    from listPathSpec_no_failure [OF None]
    obtain w1 where w1: "listPathSpec E cx w pathSpec = (Fulfilled, w1)"
      and k: "closes (trace w1) = closes (trace w)"
      by (cases "listPathSpec E cx w pathSpec") simp
    with Cons.IH [of w1] show ?thesis
      by simp
  next
    case (Some ce)
    obtain calls e where ce: "ce = (calls, e)"
      by (cases ce)
    from listPathSpec_hard_failure [OF Some [unfolded ce]]
    obtain w1 where w1: "listPathSpec E cx w pathSpec = (Rejected, w1)"
      and tr: "trace w1 = trace w @ calls @ [CloseError e]"
      by (cases "listPathSpec E cx w pathSpec") simp
    from hard_failure_calls [OF Some [unfolded ce]] tr
    have "closes (trace w1) = Suc (closes (trace w))"
      by (simp add: closes_append) (simp add: closes_def)
    with w1 show ?thesis
      by simp
  qed
qed

lemma ls_closes: "closes (trace (ls_main E cx (start fs))) = 1"
  by (simp add: ls_main_def Let_def listNext_closes)
    (simp add: trace_closeOk trace_stdout_write trace_emit trace_start closes_def)

text \<open>
  C1 at a concrete invocation of \<open>import\<close>: the user chooses a file whose read fails,
  so that its reader fires no \<open>load\<close> event. The completer of the file is never
  resolved, and neither \<open>closeOk\<close> nor \<open>closeError\<close> is called, also when the dummy
  input regains focus afterwards and its timer fires; the two inputs stay in the
  document.
\<close>

theorem import_unreadable_file_never_closes:
  "trace (import_run example_env (example_cx False [''b'']) (start example_fs)
            [ChangeEvent [\<lparr>file_name = ''x'', webkitRelativePath = None, load_result = None\<rparr>],
             FocusEvent, Timeout]) =
     [Ready, AppendChild DummyFocusInput, ElementFocus DummyFocusInput,
      AppendChild FileInput, ElementClick FileInput] \<and>
   closes (trace (import_run example_env (example_cx False [''b'']) (start example_fs)
            [ChangeEvent [\<lparr>file_name = ''x'', webkitRelativePath = None, load_result = None\<rparr>],
             FocusEvent, Timeout])) = 0"
  by code_simp

end
